theory Spec2Isabelle
  imports Complex_Main "HOL-Library.Word" "HOL-Library.AList"
begin

unbundle bit_operations_syntax

section \<open>JavaScript values\<close>

text \<open>
  The database of the ERP is a JSON document kept in \<open>localStorage\<close>; every function of
  the update module works on values that were read with \<open>JSON.parse\<close>.  Such values are
  trees, so they are modelled by a datatype: in-place mutation of a nested object becomes
  the replacement of that object inside its parent.

  Limits of the model, which hold for every definition below:
  \<^item> a number is an exact rational (\<open>rat\<close>); the rounding of IEEE doubles, \<open>NaN\<close> and the
    infinities are not values (conversions that produce them return \<open>jnum\<close>);
  \<^item> a string is a list of 8-bit characters, read as the code units 0..255;
  \<^item> an object is an association list in insertion order; the first entry of a name is
    the property.  JavaScript enumerates names that are array indices before the others;
    the model keeps insertion order.
\<close>

datatype jv = JUndef | JNull | JBool bool | JNum rat | JStr string
  | JArr "jv list" | JObj "(string \<times> jv) list"

datatype jnum = Fin rat | PInf | NInf | NaN

datatype jserr = TypeError | SyntaxError | QuotaExceededError

text \<open>The result of running a piece of code that may throw.\<close>

datatype 'a outcome = Threw jserr | Returned 'a

subsection \<open>Property access\<close>

text \<open>
  \<open>field v k\<close> is the read \<open>v.k\<close> for a receiver that is neither \<open>null\<close> nor \<open>undefined\<close>
  (the callers treat those two apart, where the source can meet them) and for a name that
  is not built in (\<open>length\<close>, an index): a missing property reads as \<open>undefined\<close>.
\<close>

definition field :: "jv \<Rightarrow> string \<Rightarrow> jv" where
  "field v k = (case v of
      JObj kvs \<Rightarrow> (case map_of kvs k of Some x \<Rightarrow> x | None \<Rightarrow> JUndef)
    | _ \<Rightarrow> JUndef)"

text \<open>
  \<open>set_field v k x\<close> is the assignment \<open>v.k = x\<close> on a plain object: an existing property
  keeps its place, a new one goes last.  On an array the assignment of a named property is
  not part of its JSON form and the value is returned as it is; the callers model the
  assignment to a primitive, which throws in a module (strict mode), before they call this.
\<close>

definition set_field :: "jv \<Rightarrow> string \<Rightarrow> jv \<Rightarrow> jv" where
  "set_field v k x = (case v of JObj kvs \<Rightarrow> JObj (AList.update k x kvs) | _ \<Rightarrow> v)"

definition del_field :: "jv \<Rightarrow> string \<Rightarrow> jv" where
  "del_field v k = (case v of JObj kvs \<Rightarrow> JObj (AList.delete k kvs) | _ \<Rightarrow> v)"

definition has_field :: "jv \<Rightarrow> string \<Rightarrow> bool" where
  "has_field v k = (case v of JObj kvs \<Rightarrow> map_of kvs k \<noteq> None | _ \<Rightarrow> False)"

definition isArray :: "jv \<Rightarrow> bool" where
  "isArray v = (case v of JArr _ \<Rightarrow> True | _ \<Rightarrow> False)"

definition elems :: "jv \<Rightarrow> jv list" where
  "elems v = (case v of JArr xs \<Rightarrow> xs | _ \<Rightarrow> [])"

definition is_primitive :: "jv \<Rightarrow> bool" where
  "is_primitive v = (case v of JArr _ \<Rightarrow> False | JObj _ \<Rightarrow> False | _ \<Rightarrow> True)"

subsection \<open>Truthiness, equality, conversions\<close>

fun truthy :: "jv \<Rightarrow> bool" where
  "truthy JUndef = False"
| "truthy JNull = False"
| "truthy (JBool b) = b"
| "truthy (JNum r) = (r \<noteq> 0)"
| "truthy (JStr s) = (s \<noteq> [])"
| "truthy (JArr xs) = True"
| "truthy (JObj kvs) = True"

text \<open>\<open>a || b\<close> and \<open>a ?? b\<close>.\<close>

definition js_or :: "jv \<Rightarrow> jv \<Rightarrow> jv" where
  "js_or a b = (if truthy a then a else b)"

definition nullish :: "jv \<Rightarrow> jv \<Rightarrow> jv" where
  "nullish a b = (if a = JUndef \<or> a = JNull then b else a)"

text \<open>
  \<open>a === b\<close>.  Two objects or arrays are equal only when they are the same reference;
  the values compared by this program come from two different places of a parsed
  document, or one of them is a primitive, so such a comparison is false.
\<close>

definition strict_eq :: "jv \<Rightarrow> jv \<Rightarrow> bool" where
  "strict_eq a b = (is_primitive a \<and> a = b)"

fun dec :: "nat \<Rightarrow> string" where
  "dec n = (if n < 10 then [''0123456789'' ! n]
            else dec (n div 10) @ [''0123456789'' ! (n mod 10)])"

declare dec.simps [simp del]

fun frac_digits :: "nat \<Rightarrow> rat \<Rightarrow> string" where
  "frac_digits 0 f = []"
| "frac_digits (Suc n) f =
     (if f = 0 then []
      else ''0123456789'' ! nat \<lfloor>f * 10\<rfloor> # frac_digits n (f * 10 - of_int \<lfloor>f * 10\<rfloor>))"

text \<open>
  \<open>Number.prototype.toString\<close>: the decimal digits of an integer, and the decimal
  expansion of a fraction (exact when it ends within 20 places).  JavaScript switches to
  the exponent form from \<open>1e21\<close> on and below \<open>1e-6\<close>; the model does not.
\<close>

definition num_str :: "rat \<Rightarrow> string" where
  "num_str r =
     (if r < 0 then ''-'' else '''') @ dec (nat \<lfloor>\<bar>r\<bar>\<rfloor>) @
     (if \<bar>r\<bar> = of_int \<lfloor>\<bar>r\<bar>\<rfloor> then ''''
      else ''.'' @ frac_digits 20 (\<bar>r\<bar> - of_int \<lfloor>\<bar>r\<bar>\<rfloor>))"

fun join :: "string \<Rightarrow> string list \<Rightarrow> string" where
  "join sep [] = []"
| "join sep [x] = x"
| "join sep (x # y # ys) = x @ sep @ join sep (y # ys)"

text \<open>\<open>String(v)\<close>; an array joins its elements with commas, \<open>null\<close> and \<open>undefined\<close>
  elements as the empty string.\<close>

fun ToString :: "jv \<Rightarrow> string" where
  "ToString JUndef = ''undefined''"
| "ToString JNull = ''null''"
| "ToString (JBool b) = (if b then ''true'' else ''false'')"
| "ToString (JNum r) = num_str r"
| "ToString (JStr s) = s"
| "ToString (JArr xs) =
     join '','' (map (\<lambda>x. if x = JNull \<or> x = JUndef then '''' else ToString x) xs)"
| "ToString (JObj kvs) = ''[object Object]''"

text \<open>White space of \<open>String.prototype.trim\<close> among the code units 0..255.\<close>

definition is_space :: "char \<Rightarrow> bool" where
  "is_space c = ((of_char c :: nat) \<in> {9, 10, 11, 12, 13, 32, 160})"

definition trim :: "string \<Rightarrow> string" where
  "trim s = rev (dropWhile is_space (rev (dropWhile is_space s)))"

definition is_digit :: "char \<Rightarrow> bool" where
  "is_digit c = (48 \<le> (of_char c :: nat) \<and> (of_char c :: nat) \<le> 57)"

definition digit_val :: "char \<Rightarrow> nat" where
  "digit_val c = of_char c - 48"

definition nat_of_digits :: "string \<Rightarrow> nat" where
  "nat_of_digits ds = foldl (\<lambda>a c. 10 * a + digit_val c) 0 ds"

text \<open>Digits of the bases 2, 8 and 16 (\<open>0b\<close>, \<open>0o\<close>, \<open>0x\<close> literals).\<close>

definition hex_val :: "char \<Rightarrow> nat option" where
  "hex_val c =
     (let n = (of_char c :: nat) in
      if 48 \<le> n \<and> n \<le> 57 then Some (n - 48)
      else if 97 \<le> n \<and> n \<le> 102 then Some (n - 87)
      else if 65 \<le> n \<and> n \<le> 70 then Some (n - 55)
      else None)"

definition radix_number :: "nat \<Rightarrow> string \<Rightarrow> jnum" where
  "radix_number b ds =
     (if ds \<noteq> [] \<and> list_all (\<lambda>c. case hex_val c of Some d \<Rightarrow> d < b | None \<Rightarrow> False) ds
      then Fin (of_nat (foldl (\<lambda>a c. b * a + the (hex_val c)) 0 ds))
      else NaN)"

text \<open>
  The decimal literal of \<open>StringToNumber\<close>: digits, an optional fraction, an optional
  exponent; at least one digit before the exponent.
\<close>

definition exponent_part :: "string \<Rightarrow> int option" where
  "exponent_part s =
     (case s of
        [] \<Rightarrow> Some 0
      | c # r \<Rightarrow>
          if c = CHR ''e'' \<or> c = CHR ''E'' then
            (let (neg, ds) = (case r of
                                [] \<Rightarrow> (False, [])
                              | d # r' \<Rightarrow> if d = CHR ''-'' then (True, r')
                                          else if d = CHR ''+'' then (False, r') else (False, r))
             in if ds \<noteq> [] \<and> list_all is_digit ds
                then Some (if neg then - int (nat_of_digits ds) else int (nat_of_digits ds))
                else None)
          else None)"

definition pow10 :: "int \<Rightarrow> rat" where
  "pow10 e = (if e < 0 then 1 / 10 ^ nat (- e) else 10 ^ nat e)"

definition decimal_number :: "string \<Rightarrow> jnum" where
  "decimal_number s =
     (let ip = takeWhile is_digit s; r1 = dropWhile is_digit s;
          (fp, r2) = (case r1 of
                        [] \<Rightarrow> ([], [])
                      | c # r \<Rightarrow> if c = CHR ''.'' then (takeWhile is_digit r, dropWhile is_digit r)
                                 else ([], r1))
      in if ip = [] \<and> fp = [] then NaN
         else (case exponent_part r2 of
                 None \<Rightarrow> NaN
               | Some e \<Rightarrow>
                   Fin (of_nat (nat_of_digits (ip @ fp)) / 10 ^ length fp * pow10 e)))"

definition neg_jnum :: "jnum \<Rightarrow> jnum" where
  "neg_jnum n = (case n of Fin r \<Rightarrow> Fin (- r) | PInf \<Rightarrow> NInf | NInf \<Rightarrow> PInf | NaN \<Rightarrow> NaN)"

definition unsigned_number :: "string \<Rightarrow> jnum" where
  "unsigned_number s = (if s = ''Infinity'' then PInf else decimal_number s)"

text \<open>\<open>Number(s)\<close> for a string: the empty string is 0; a literal with a radix prefix
  has no sign.\<close>

definition StringToNumber :: "string \<Rightarrow> jnum" where
  "StringToNumber s0 =
     (let s = trim s0 in
      if s = [] then Fin 0
      else if take 2 s = ''0x'' \<or> take 2 s = ''0X'' then radix_number 16 (drop 2 s)
      else if take 2 s = ''0o'' \<or> take 2 s = ''0O'' then radix_number 8 (drop 2 s)
      else if take 2 s = ''0b'' \<or> take 2 s = ''0B'' then radix_number 2 (drop 2 s)
      else if hd s = CHR ''-'' then neg_jnum (unsigned_number (tl s))
      else if hd s = CHR ''+'' then unsigned_number (tl s)
      else unsigned_number s)"

text \<open>\<open>Number(v)\<close>.\<close>

definition ToNumber :: "jv \<Rightarrow> jnum" where
  "ToNumber v = (case v of
      JUndef \<Rightarrow> NaN
    | JNull \<Rightarrow> Fin 0
    | JBool b \<Rightarrow> Fin (if b then 1 else 0)
    | JNum r \<Rightarrow> Fin r
    | JStr s \<Rightarrow> StringToNumber s
    | JArr xs \<Rightarrow> StringToNumber (ToString (JArr xs))
    | JObj kvs \<Rightarrow> NaN)"

text \<open>\<open>Math.trunc\<close>.\<close>

definition trunc :: "rat \<Rightarrow> rat" where
  "trunc r = (if 0 \<le> r then of_int \<lfloor>r\<rfloor> else of_int \<lceil>r\<rceil>)"

text \<open>
  The properties of an object, each name once: the first entry of a name, in the order
  of the first entries.
\<close>

definition own_props :: "(string \<times> jv) list \<Rightarrow> (string \<times> jv) list" where
  "own_props kvs = AList.clearjunk kvs"

lemma own_props_subset: "kv \<in> set (own_props kvs) \<Longrightarrow> kv \<in> set kvs"
proof -
  have "set (AList.clearjunk al) \<subseteq> set al" for al :: "(string \<times> jv) list"
  proof (induct al rule: AList.clearjunk.induct)
    case 1
    then show ?case by simp
  next
    case (2 p ps)
    have "set (AList.delete (fst p) ps) \<subseteq> set ps"
      by (auto simp: AList.delete_eq)
    with 2 show ?case by auto
  qed
  then show "kv \<in> set (own_props kvs) \<Longrightarrow> kv \<in> set kvs"
    by (auto simp: own_props_def)
qed

text \<open>
  \<open>JSON.parse(JSON.stringify(v))\<close> for a value that is not \<open>undefined\<close>: a property
  whose value is \<open>undefined\<close> is left out, an \<open>undefined\<close> element of an array becomes
  \<open>null\<close>.
\<close>

function json_clean :: "jv \<Rightarrow> jv" where
  "json_clean (JArr xs) = JArr (map json_clean xs)"
| "json_clean (JObj kvs) =
     JObj (map (\<lambda>kv. (fst kv, json_clean (snd kv)))
            (filter (\<lambda>kv. snd kv \<noteq> JUndef) (own_props kvs)))"
| "json_clean JUndef = JNull"
| "json_clean JNull = JNull"
| "json_clean (JBool b) = JBool b"
| "json_clean (JNum r) = JNum r"
| "json_clean (JStr s) = JStr s"
  by pat_completeness auto
termination
proof (relation "measure size")
  show "wf (measure size)" by simp
next
  fix xs :: "jv list" and x
  assume "x \<in> set xs"
  then show "(x, JArr xs) \<in> measure size"
    by (induction xs) auto
next
  fix kvs :: "(string \<times> jv) list" and kv
  assume "kv \<in> set (filter (\<lambda>kv. snd kv \<noteq> JUndef) (own_props kvs))"
  then have "kv \<in> set kvs"
    by (simp add: own_props_subset)
  then have "size (snd kv) < Suc (size_list (size_prod (\<lambda>_. 0) size) kvs)"
    by (induction kvs) (auto simp: less_Suc_eq_le)
  then show "(snd kv, JObj kvs) \<in> measure size"
    by simp
qed

section \<open>Validation and normalisation (storage/validate.js, storage/schema.js)\<close>

definition isObj :: "jv \<Rightarrow> bool" where
  "isObj x = (case x of JObj _ \<Rightarrow> True | _ \<Rightarrow> False)"

definition asStr :: "jv \<Rightarrow> string" where
  "asStr x = (if x = JNull \<or> x = JUndef then '''' else ToString x)"

text \<open>\<open>s.replace(/\./g, '')\<close> and \<open>s.replace(',', '.')\<close> (the first comma only).\<close>

definition remove_dots :: "string \<Rightarrow> string" where
  "remove_dots s = filter (\<lambda>c. c \<noteq> CHR ''.'') s"

fun replace_comma :: "string \<Rightarrow> string" where
  "replace_comma [] = []"
| "replace_comma (c # cs) = (if c = CHR '','' then CHR ''.'' # cs else c # replace_comma cs)"

definition asNum :: "jv \<Rightarrow> rat \<Rightarrow> rat" where
  "asNum x dflt = (case x of
      JNum r \<Rightarrow> r
    | JStr s \<Rightarrow> (case StringToNumber (replace_comma (remove_dots (trim s))) of
                   Fin n \<Rightarrow> n | _ \<Rightarrow> dflt)
    | _ \<Rightarrow> dflt)"

definition asInt :: "jv \<Rightarrow> rat \<Rightarrow> rat" where
  "asInt x dflt = trunc (asNum x dflt)"

fun hex :: "nat \<Rightarrow> string" where
  "hex n = (if n < 16 then [''0123456789abcdef'' ! n]
            else hex (n div 16) @ [''0123456789abcdef'' ! (n mod 16)])"

declare hex.simps [simp del]

definition padStart8 :: "string \<Rightarrow> string" where
  "padStart8 s = replicate (8 - length s) (CHR ''0'') @ s"

text \<open>
  \<open>checksum32\<close>: \<open>h ^= str.charCodeAt(i); h = Math.imul(h, 16777619)\<close> from the seed
  2166136261, on 32-bit integers, then \<open>(h >>> 0).toString(16).padStart(8, '0')\<close>.
\<close>

definition checksum_step :: "32 word \<Rightarrow> char \<Rightarrow> 32 word" where
  "checksum_step h c = (h XOR of_nat (of_char c)) * 16777619"

definition checksum_word :: "string \<Rightarrow> 32 word" where
  "checksum_word str = foldl checksum_step 2166136261 str"

definition checksum32 :: "string \<Rightarrow> string" where
  "checksum32 str = padStart8 (hex (unat (checksum_word str)))"

definition SCHEMA_VERSION :: rat where
  "SCHEMA_VERSION = 1"

text \<open>\<open>defaultDB()\<close>, with the reading \<open>now\<close> of \<open>new Date().toISOString()\<close>.\<close>

definition defaultDB :: "string \<Rightarrow> jv" where
  "defaultDB now = JObj
     [(''schemaVersion'', JNum SCHEMA_VERSION),
      (''meta'', JObj [(''createdAt'', JStr now), (''updatedAt'', JStr now)]),
      (''users'', JArr []),
      (''settings'', JObj []),
      (''estoque'', JArr []),
      (''vendas'', JArr []),
      (''caixa'', JObj [(''aberto'', JBool False), (''movimentos'', JArr []),
                       (''aberturas'', JArr [])]),
      (''devedores'', JArr []),
      (''auditLog'', JArr [])]"

text \<open>
  The warnings of a report are strings in the source; the model names each message and
  keeps the interpolated text.
  \<^item> \<open>DBInvalido\<close>: "DB invalido: substituido por defaults."
  \<^item> \<open>ProdutoSemCodigo nome\<close>, \<open>ProdutoSemNome cod\<close>
  \<^item> \<open>EstoqueNegativo c\<close>, \<open>PrecoNegativo c\<close>, \<open>CustoNegativo c\<close>: "... corrigido em c"
  \<^item> \<open>VendaTotalNegativo i\<close>: "Venda i com total negativo corrigido."
  \<^item> \<open>ErrorMessage e\<close>: the message of a caught exception.
\<close>

datatype warning = DBInvalido | ProdutoSemCodigo string | ProdutoSemNome string
  | EstoqueNegativo string | PrecoNegativo string | CustoNegativo string
  | VendaTotalNegativo string | ErrorMessage jserr

record report =
  warnings :: "warning list"
  fixed :: "string list"
  rep_at :: string

definition sem_cod :: "string \<Rightarrow> string" where
  "sem_cod c = (if c \<noteq> [] then c else ''(sem cod)'')"

subsection \<open>The assignments of \<open>normalizeDB\<close>, one definition for each form\<close>

text \<open>\<open>o.k = asStr(o.k).trim()\<close>\<close>

definition coerce_str :: "string \<Rightarrow> jv \<Rightarrow> jv" where
  "coerce_str k v = set_field v k (JStr (trim (asStr (field v k))))"

text \<open>\<open>o.k = asInt(o.k, dflt)\<close>\<close>

definition coerce_int :: "string \<Rightarrow> rat \<Rightarrow> jv \<Rightarrow> jv" where
  "coerce_int k dflt v = set_field v k (JNum (asInt (field v k) dflt))"

text \<open>\<open>o.k = asNum(o.k, 0)\<close> (a finite number, so the test \<open>Number.isFinite\<close> that follows
  it for \<open>lucro_p\<close> holds)\<close>

definition coerce_num :: "string \<Rightarrow> jv \<Rightarrow> jv" where
  "coerce_num k v = set_field v k (JNum (asNum (field v k) 0))"

text \<open>\<open>o.k = !!o.k\<close>\<close>

definition coerce_bool :: "string \<Rightarrow> jv \<Rightarrow> jv" where
  "coerce_bool k v = set_field v k (JBool (truthy (field v k)))"

text \<open>\<open>o.k = o.k || dflt\<close>\<close>

definition default_field :: "string \<Rightarrow> jv \<Rightarrow> jv \<Rightarrow> jv" where
  "default_field k dflt v = set_field v k (js_or (field v k) dflt)"

text \<open>\<open>o.k = Array.isArray(o.k) ? o.k : []\<close> and \<open>o.k = isObj(o.k) ? o.k : dflt\<close>\<close>

definition ensure_array :: "string \<Rightarrow> jv \<Rightarrow> jv" where
  "ensure_array k v = set_field v k (if isArray (field v k) then field v k else JArr [])"

definition ensure_obj :: "string \<Rightarrow> jv \<Rightarrow> jv \<Rightarrow> jv" where
  "ensure_obj k dflt v = set_field v k (if isObj (field v k) then field v k else dflt)"

text \<open>The reads \<open>o.k\<close> of a property that holds a number, or a string, after its
  coercion.\<close>

definition num_field :: "jv \<Rightarrow> string \<Rightarrow> rat" where
  "num_field v k = (case field v k of JNum r \<Rightarrow> r | _ \<Rightarrow> 0)"

definition str_field :: "jv \<Rightarrow> string \<Rightarrow> string" where
  "str_field v k = (case field v k of JStr s \<Rightarrow> s | _ \<Rightarrow> [])"

text \<open>\<open>if (o.k < 0) o.k = 0\<close>\<close>

definition clamp_neg :: "string \<Rightarrow> jv \<Rightarrow> jv" where
  "clamp_neg k v = (if num_field v k < 0 then set_field v k (JNum 0) else v)"

subsection \<open>Products\<close>

text \<open>The seven coercions at the head of the loop over \<open>db.estoque\<close>, in the order of the
  source.\<close>

definition produto_coerced :: "jv \<Rightarrow> jv" where
  "produto_coerced p =
     coerce_num ''lucro_p'' (coerce_int ''preco_c'' 0 (coerce_int ''custo_c'' 0
       (coerce_int ''min'' 0 (coerce_int ''qtd'' 0 (coerce_str ''nome'' (coerce_str ''cod'' p))))))"

text \<open>The warnings of the five tests that follow, for the product \<open>p\<close> as the coercions
  left it.\<close>

definition produto_warnings :: "jv \<Rightarrow> warning list" where
  "produto_warnings p =
     (if str_field p ''cod'' = [] \<and> str_field p ''nome'' \<noteq> []
      then [ProdutoSemCodigo (str_field p ''nome'')] else []) @
     (if str_field p ''nome'' = [] \<and> str_field p ''cod'' \<noteq> []
      then [ProdutoSemNome (str_field p ''cod'')] else []) @
     (if num_field p ''qtd'' < 0 then [EstoqueNegativo (sem_cod (str_field p ''cod''))] else []) @
     (if num_field p ''preco_c'' < 0 then [PrecoNegativo (sem_cod (str_field p ''cod''))] else []) @
     (if num_field p ''custo_c'' < 0 then [CustoNegativo (sem_cod (str_field p ''cod''))] else [])"

text \<open>The body of the loop over \<open>db.estoque\<close>: an entry that is not a plain object is
  skipped.\<close>

definition norm_produto :: "jv \<Rightarrow> jv \<times> warning list" where
  "norm_produto p =
     (if \<not> isObj p then (p, [])
      else (clamp_neg ''custo_c'' (clamp_neg ''preco_c'' (clamp_neg ''qtd'' (produto_coerced p))),
            produto_warnings (produto_coerced p)))"

subsection \<open>Sales\<close>

text \<open>The body of the loop over \<open>v.itens\<close>.\<close>

definition norm_item :: "jv \<Rightarrow> jv" where
  "norm_item i =
     (if \<not> isObj i then i
      else coerce_int ''preco_c'' 0 (coerce_num ''qtd''
             (coerce_str ''nome'' (coerce_str ''cod'' i))))"

text \<open>\<open>v.id = asStr(v.id).trim() || v.id\<close>\<close>

definition coerce_id :: "jv \<Rightarrow> jv" where
  "coerce_id v = set_field v ''id'' (js_or (JStr (trim (asStr (field v ''id'')))) (field v ''id''))"

text \<open>The loop over \<open>v.itens\<close>, which is an array by then.\<close>

definition norm_itens :: "jv \<Rightarrow> jv" where
  "norm_itens v = set_field v ''itens'' (JArr (map norm_item (elems (field v ''itens''))))"

text \<open>\<open>v.total_c = asInt(v.total_c, Math.max(0, v.subtotal_c - v.desconto_c))\<close>\<close>

definition coerce_total :: "jv \<Rightarrow> jv" where
  "coerce_total v =
     coerce_int ''total_c'' (max 0 (num_field v ''subtotal_c'' - num_field v ''desconto_c'')) v"

definition venda_coerced :: "string \<Rightarrow> jv \<Rightarrow> jv" where
  "venda_coerced now v =
     coerce_total (coerce_int ''desconto_c'' 0 (coerce_int ''subtotal_c'' 0
       (norm_itens (ensure_array ''itens'' (default_field ''dataIso'' (JStr now) (coerce_id v))))))"

definition venda_warnings :: "jv \<Rightarrow> warning list" where
  "venda_warnings v =
     (if num_field v ''total_c'' < 0
      then [VendaTotalNegativo (ToString (js_or (field v ''id'') (JStr ''(sem id)'')))]
      else [])"

text \<open>The body of the loop over \<open>db.vendas\<close>.\<close>

definition norm_venda :: "string \<Rightarrow> jv \<Rightarrow> jv \<times> warning list" where
  "norm_venda now v =
     (if \<not> isObj v then (v, [])
      else (clamp_neg ''total_c'' (venda_coerced now v), venda_warnings (venda_coerced now v)))"

subsection \<open>The database\<close>

text \<open>\<open>db.meta = isObj(db.meta) ? db.meta : {}\<close>, then \<open>createdAt\<close> and \<open>updatedAt\<close>.\<close>

definition norm_meta :: "string \<Rightarrow> jv \<Rightarrow> jv" where
  "norm_meta now db =
     set_field db ''meta''
       (set_field (default_field ''createdAt'' (JStr now)
                     (if isObj (field db ''meta'') then field db ''meta'' else JObj []))
          ''updatedAt'' (JStr now))"

definition default_caixa :: jv where
  "default_caixa = JObj [(''aberto'', JBool False), (''movimentos'', JArr []),
                         (''aberturas'', JArr [])]"

definition norm_caixa :: "jv \<Rightarrow> jv" where
  "norm_caixa db =
     set_field db ''caixa''
       (ensure_array ''aberturas'' (ensure_array ''movimentos'' (coerce_bool ''aberto''
          (if isObj (field db ''caixa'') then field db ''caixa'' else default_caixa))))"

text \<open>The assignments of \<open>normalizeDB\<close> from \<open>schemaVersion\<close> to \<open>auditLog\<close>.\<close>

definition norm_shape :: "string \<Rightarrow> jv \<Rightarrow> jv" where
  "norm_shape now db =
     ensure_array ''auditLog'' (ensure_array ''devedores'' (norm_caixa
       (ensure_array ''vendas'' (ensure_array ''estoque'' (ensure_obj ''settings'' (JObj [])
          (ensure_array ''users'' (norm_meta now
             (coerce_int ''schemaVersion'' SCHEMA_VERSION db))))))))"

text \<open>The two loops.\<close>

definition norm_estoque :: "jv \<Rightarrow> jv" where
  "norm_estoque db =
     set_field db ''estoque'' (JArr (map (\<lambda>p. fst (norm_produto p)) (elems (field db ''estoque''))))"

definition norm_vendas :: "string \<Rightarrow> jv \<Rightarrow> jv" where
  "norm_vendas now db =
     set_field db ''vendas'' (JArr (map (\<lambda>v. fst (norm_venda now v)) (elems (field db ''vendas''))))"

text \<open>
  \<open>normalizeDB(db)\<close> with the reading \<open>now\<close> of the clock; the second component is the
  report the source leaves in \<open>normalizeDB.lastReport\<close>.  The source changes \<open>db\<close> in
  place and returns it.
\<close>

definition normalizeDB :: "string \<Rightarrow> jv \<Rightarrow> jv \<times> report" where
  "normalizeDB now db =
     (if \<not> isObj db
      then (defaultDB now,
            \<lparr>warnings = [DBInvalido], fixed = [''replaced_with_defaults''], rep_at = now\<rparr>)
      else (norm_vendas now (norm_estoque (norm_shape now db)),
            \<lparr>warnings =
                concat (map (\<lambda>p. snd (norm_produto p)) (elems (field (norm_shape now db) ''estoque''))) @
                concat (map (\<lambda>v. snd (norm_venda now v)) (elems (field (norm_shape now db) ''vendas''))),
              fixed = [], rep_at = now\<rparr>))"

section \<open>The environment: storage, clock, random source\<close>

text \<open>
  An item of \<open>localStorage\<close> is a string.  \<open>Json v\<close> stands for the text
  \<open>JSON.stringify(v)\<close> of a value \<open>v\<close> that is not \<open>undefined\<close>, and \<open>Unparsable s\<close>
  for a text \<open>s\<close> that \<open>JSON.parse\<close> rejects; \<open>JSON.stringify(undefined)\<close> is
  \<open>undefined\<close>, which \<open>setItem\<close> stores as the text "undefined".
\<close>

datatype item = Json jv | Unparsable string

definition stringify_item :: "jv \<Rightarrow> item" where
  "stringify_item v = (if v = JUndef then Unparsable ''undefined'' else Json v)"

definition JSON_parse_item :: "item \<Rightarrow> jv outcome" where
  "JSON_parse_item it = (case it of
      Json v \<Rightarrow> Returned (json_clean v)
    | Unparsable s \<Rightarrow> Threw SyntaxError)"

text \<open>\<open>!raw\<close> for the result of \<open>getItem\<close>: no item, or the empty string.\<close>

definition raw_falsy :: "item option \<Rightarrow> bool" where
  "raw_falsy raw = (case raw of
      None \<Rightarrow> True
    | Some (Unparsable s) \<Rightarrow> s = []
    | Some (Json v) \<Rightarrow> False)"

record recovery =
  rec_active :: bool
  rec_reason :: string
  rec_details :: "jserr option"
  rec_since :: "string option"

text \<open>
  The state of the module \<open>db_core.js\<close> (\<open>_cfg\<close>, \<open>_lastSnapshotAt\<close>, \<open>_recovery\<close>),
  \<open>normalizeDB.lastReport\<close>, the store, and what the program reads from its
  environment: \<open>refuses\<close> tells whether \<open>setItem\<close> throws (the quota) for the present
  contents, a key and a text; \<open>date_now\<close> and \<open>iso_now\<close> are the readings of
  \<open>Date.now()\<close> and \<open>new Date().toISOString()\<close>, constant during one call of a public
  function; \<open>random_hex n\<close> is the \<open>n\<close>-th value of
  \<open>Math.random().toString(16).slice(2, 8)\<close>; \<open>currentUser\<close> is what
  \<open>window.CoreUsers.auth.currentUser()\<close> returns, \<open>null\<close> without that module.
  The cap on the snapshots counts snapshots, hence a natural number.
\<close>

record world =
  localStorage :: "string \<Rightarrow> item option"
  refuses :: "(string \<Rightarrow> item option) \<Rightarrow> string \<Rightarrow> item \<Rightarrow> bool"
  cfg_storageKey :: string
  cfg_maxSnapshots :: nat
  cfg_cooldownMs :: int
  lastSnapshotAt :: int
  recovery_state :: recovery
  lastReport :: "report option"
  date_now :: nat
  iso_now :: string
  random_hex :: "nat \<Rightarrow> string"
  random_calls :: nat
  currentUser :: jv

definition setItem :: "string \<Rightarrow> item \<Rightarrow> world \<Rightarrow> unit outcome \<times> world" where
  "setItem k v w =
     (if refuses w (localStorage w) k v then (Threw QuotaExceededError, w)
      else (Returned (), w\<lparr>localStorage := (localStorage w)(k \<mapsto> v)\<rparr>))"

definition removeItem :: "string \<Rightarrow> world \<Rightarrow> world" where
  "removeItem k w = w\<lparr>localStorage := (localStorage w)(k := None)\<rparr>"

definition setRecovery :: "bool \<Rightarrow> string \<Rightarrow> jserr option \<Rightarrow> world \<Rightarrow> world" where
  "setRecovery a r d w =
     w\<lparr>recovery_state :=
         \<lparr>rec_active = a, rec_reason = r, rec_details = d,
          rec_since = (if a then Some (iso_now w) else None)\<rparr>\<rparr>"

text \<open>\<open>uid(prefix)\<close> of utils/ids.js.\<close>

definition generateId :: "string \<Rightarrow> world \<Rightarrow> string \<times> world" where
  "generateId prefix w =
     (prefix @ ''_'' @ dec (date_now w) @ ''_'' @ random_hex w (random_calls w),
      w\<lparr>random_calls := Suc (random_calls w)\<rparr>)"

definition normalizeDB_w :: "jv \<Rightarrow> world \<Rightarrow> jv \<times> world" where
  "normalizeDB_w db w =
     (fst (normalizeDB (iso_now w) db),
      w\<lparr>lastReport := Some (snd (normalizeDB (iso_now w) db))\<rparr>)"

section \<open>Snapshots (storage/backup.js)\<close>

definition snapKey :: "string \<Rightarrow> string" where
  "snapKey storageKey = storageKey @ ''__snapshots''"

definition loadSnapshots :: "string \<Rightarrow> world \<Rightarrow> jv list" where
  "loadSnapshots storageKey w =
     (let raw = localStorage w (snapKey storageKey) in
      if raw_falsy raw then []
      else (case raw of
              None \<Rightarrow> []
            | Some it \<Rightarrow> (case JSON_parse_item it of
                           Returned a \<Rightarrow> (if isArray a then elems a else [])
                         | Threw e \<Rightarrow> [])))"

definition saveSnapshots :: "string \<Rightarrow> jv list \<Rightarrow> world \<Rightarrow> unit outcome \<times> world" where
  "saveSnapshots storageKey arr w = setItem (snapKey storageKey) (stringify_item (JArr arr)) w"

text \<open>\<open>while (snaps.length > maxSnapshots) snaps.pop()\<close>.\<close>

function trim_snaps :: "nat \<Rightarrow> jv list \<Rightarrow> jv list" where
  "trim_snaps cap snaps = (if length snaps > cap then trim_snaps cap (butlast snaps) else snaps)"
  by pat_completeness auto
termination
  by (relation "measure (\<lambda>(cap, snaps). length snaps)") auto

declare trim_snaps.simps [simp del]

definition new_snapshot :: "string \<Rightarrow> jv \<Rightarrow> world \<Rightarrow> jv" where
  "new_snapshot snap_id db w = JObj
     [(''id'', JStr snap_id),
      (''at'', JStr (iso_now w)),
      (''schemaVersion'', js_or (field db ''schemaVersion'') (JNum SCHEMA_VERSION)),
      (''counts'', JObj
         [(''estoque'', JNum (if isArray (field db ''estoque'')
                             then of_nat (length (elems (field db ''estoque''))) else 0)),
          (''vendas'', JNum (if isArray (field db ''vendas'')
                            then of_nat (length (elems (field db ''vendas''))) else 0))]),
      (''data'', db)]"

definition createSnapshot :: "string \<Rightarrow> jv \<Rightarrow> nat \<Rightarrow> world \<Rightarrow> string outcome \<times> world" where
  "createSnapshot storageKey db maxSnapshots w =
     (let snaps = loadSnapshots storageKey w;
          snap_id = dec (date_now w) @ ''_'' @ random_hex w (random_calls w);
          w1 = w\<lparr>random_calls := Suc (random_calls w)\<rparr>;
          snaps1 = trim_snaps maxSnapshots (new_snapshot snap_id db w1 # snaps)
      in case saveSnapshots storageKey snaps1 w1 of
           (Threw e, w2) \<Rightarrow> (Threw e, w2)
         | (Returned u, w2) \<Rightarrow> (Returned snap_id, w2))"

section \<open>The store core (storage/db_core.js)\<close>

record save_result =
  sv_ok :: bool
  sv_warnings :: "warning list"
  sv_snapshotCreated :: bool

text \<open>The \<open>catch\<close> of \<open>safeSave\<close>.\<close>

definition save_failed :: "jserr \<Rightarrow> world \<Rightarrow> save_result \<times> world" where
  "save_failed e w =
     (\<lparr>sv_ok = False, sv_warnings = [ErrorMessage e], sv_snapshotCreated = False\<rparr>,
      setRecovery True ''storage_error'' (Some e) w)"

definition last_warnings :: "world \<Rightarrow> warning list" where
  "last_warnings w = (case lastReport w of None \<Rightarrow> [] | Some r \<Rightarrow> warnings r)"

text \<open>\<open>safeSave(db, {forceSnapshot, skipNormalize})\<close>; each option is \<open>false\<close> when it is
  left out.\<close>

definition safeSave :: "jv \<Rightarrow> bool \<Rightarrow> bool \<Rightarrow> world \<Rightarrow> save_result \<times> world" where
  "safeSave db forceSnapshot skipNormalize w =
     (let (fixed, w1) = (if skipNormalize then (db, w) else normalizeDB_w db w);
          tmpKey = cfg_storageKey w1 @ ''__tmp''
      in case setItem tmpKey (stringify_item fixed) w1 of
           (Threw e, w2) \<Rightarrow> save_failed e w2
         | (Returned u, w2) \<Rightarrow>
             (case setItem (cfg_storageKey w2)
                     (case localStorage w2 tmpKey of Some t \<Rightarrow> t | None \<Rightarrow> Json JNull) w2 of
                (Threw e, w3) \<Rightarrow> save_failed e w3
              | (Returned u', w3) \<Rightarrow>
                  let w4 = removeItem tmpKey w3 in
                  if forceSnapshot \<or> int (date_now w4) - lastSnapshotAt w4 \<ge> cfg_cooldownMs w4
                  then (case createSnapshot (cfg_storageKey w4) fixed (cfg_maxSnapshots w4) w4 of
                          (Threw e, w5) \<Rightarrow> save_failed e w5
                        | (Returned snap_id, w5) \<Rightarrow>
                            (\<lparr>sv_ok = True, sv_warnings = last_warnings w5,
                              sv_snapshotCreated = True\<rparr>,
                             w5\<lparr>lastSnapshotAt := int (date_now w5)\<rparr>))
                  else (\<lparr>sv_ok = True, sv_warnings = last_warnings w4,
                          sv_snapshotCreated = False\<rparr>, w4)))"

text \<open>\<open>get()\<close>.\<close>

definition get :: "world \<Rightarrow> jv \<times> world" where
  "get w =
     (case localStorage w (cfg_storageKey w) of
        None \<Rightarrow> (defaultDB (iso_now w), w)
      | Some raw \<Rightarrow>
          if raw_falsy (Some raw) then (defaultDB (iso_now w), w)
          else (case JSON_parse_item raw of
                  Returned db \<Rightarrow> normalizeDB_w db w
                | Threw e \<Rightarrow>
                    let w1 = setRecovery True ''db_corrompido_json'' (Some e) w;
                        db = defaultDB (iso_now w1)
                    in (db, snd (safeSave db True True w1))))"

section \<open>Stock movements (services/ops_stock_events.js)\<close>

text \<open>
  The results \<open>{ok: false, error}\<close> of the ledgers:
  "Produto nao encontrado pelo codigo.", "Caixa ja esta aberto.", "Caixa nao esta aberto.",
  "Venda nao encontrada.", "Venda ja cancelada anteriormente.".
\<close>

datatype op_error = ProdutoNaoEncontrado | CaixaJaAberto | CaixaNaoAberto
  | VendaNaoEncontrada | VendaJaCancelada

definition stock_ensureCollections :: "jv \<Rightarrow> jv" where
  "stock_ensureCollections db =
     ensure_array ''cashSessions'' (ensure_array ''saleVoids''
       (ensure_array ''stockMovements'' (ensure_array ''estoque'' db)))"

fun find_index :: "('a \<Rightarrow> bool) \<Rightarrow> 'a list \<Rightarrow> nat option" where
  "find_index P [] = None"
| "find_index P (x # xs) = (if P x then Some 0 else map_option Suc (find_index P xs))"

text \<open>\<open>findProduct\<close> returns the product itself, a reference into \<open>db.estoque\<close>; the model
  returns its index.\<close>

definition findProduct :: "jv \<Rightarrow> jv \<Rightarrow> nat option" where
  "findProduct db productCod =
     (let code = trim (ToString (js_or productCod (JStr '''')))
      in find_index (\<lambda>p. truthy p \<and> trim (ToString (js_or (field p ''cod'') (JStr ''''))) = code)
           (elems (field db ''estoque'')))"

text \<open>
  \<open>applyDeltaToProduct\<close> returns the product after the assignment and the quantity it
  holds.  The product is truthy; when it is a primitive the assignment throws (the
  modules run in strict mode).
\<close>

definition applyDeltaToProduct :: "jv \<Rightarrow> rat \<Rightarrow> (jv \<times> rat) outcome" where
  "applyDeltaToProduct prd qtyDelta =
     (if is_primitive prd then Threw TypeError
      else let q = asInt (field prd ''qtd'') 0 + asInt (JNum qtyDelta) 0;
               q' = (if q < 0 then 0 else q)
           in Returned (set_field prd ''qtd'' (JNum q'), q'))"

definition user_stamp :: "jv \<Rightarrow> jv" where
  "user_stamp user =
     (if truthy user
      then JObj [(''id'', field user ''id''), (''username'', field user ''username''),
                 (''role'', field user ''role'')]
      else JNull)"

record mov_args =
  a_type :: jv
  a_productCod :: jv
  a_qty :: jv
  a_qtyDelta :: jv
  a_reason :: jv
  a_meta :: jv

datatype stock_result = StockError op_error | StockOk string rat

definition enforce_sign :: "string \<Rightarrow> rat \<Rightarrow> rat" where
  "enforce_sign t delta0 =
     (let delta1 = (if (t = ''saida'' \<or> t = ''perda'') \<and> delta0 > 0 then - delta0 else delta0)
      in if (t = ''entrada'' \<or> t = ''devolucao'') \<and> delta1 < 0 then - delta1 else delta1)"

text \<open>The delta of a movement: \<open>qtyDelta\<close> when it is given, else \<open>qty\<close>, with the sign
  its type asks for.\<close>

definition movement_type :: "mov_args \<Rightarrow> string" where
  "movement_type a = ToString (js_or (a_type a) (JStr ''ajuste''))"

definition movement_delta :: "mov_args \<Rightarrow> rat" where
  "movement_delta a =
     enforce_sign (movement_type a)
       (if a_qtyDelta a \<noteq> JUndef then asInt (a_qtyDelta a) 0 else asInt (a_qty a) 0)"

text \<open>The record \<open>mv\<close> that \<open>addMovement\<close> appends to \<open>db.stockMovements\<close>.\<close>

definition movement_entry :: "mov_args \<Rightarrow> string \<Rightarrow> world \<Rightarrow> jv" where
  "movement_entry a mid w = JObj
     [(''id'', JStr mid),
      (''atIso'', JStr (iso_now w)),
      (''type'', JStr (movement_type a)),
      (''productCod'', JStr (trim (ToString (js_or (a_productCod a) (JStr ''''))))),
      (''qtyDelta'', JNum (movement_delta a)),
      (''reason'', js_or (a_reason a) (JStr '''')),
      (''user'', user_stamp (currentUser w)),
      (''meta'', js_or (a_meta a) JNull)]"

text \<open>The database after \<open>applyDeltaToProduct(prod, delta)\<close> has changed the product at
  index \<open>i\<close> of \<open>db.estoque\<close>, and after \<open>db.stockMovements.push(mv)\<close>.\<close>

definition with_movement :: "jv \<Rightarrow> nat \<Rightarrow> jv \<Rightarrow> jv \<Rightarrow> jv" where
  "with_movement db i prd mv =
     set_field (set_field db ''estoque'' (JArr ((elems (field db ''estoque''))[i := prd])))
       ''stockMovements'' (JArr (elems (field db ''stockMovements'') @ [mv]))"

text \<open>
  \<open>addMovement({type, productCod, qty, qtyDelta, reason, meta})\<close>; an argument that is left
  out is \<open>undefined\<close>.  \<open>StockOk movementId newQty\<close> is the result
  \<open>{ok: true, movementId, newQty}\<close>.  The call of the audit log, in a \<open>try\<close> of its own,
  touches nothing of the database and is left out.
\<close>

definition stock_addMovement :: "mov_args \<Rightarrow> world \<Rightarrow> stock_result outcome \<times> world" where
  "stock_addMovement a w =
     (let db = stock_ensureCollections (fst (get w)); w1 = snd (get w) in
      case findProduct db (a_productCod a) of
        None \<Rightarrow> (Returned (StockError ProdutoNaoEncontrado), w1)
      | Some i \<Rightarrow>
          let mid = fst (generateId ''sm'' w1); w2 = snd (generateId ''sm'' w1) in
          case applyDeltaToProduct (elems (field db ''estoque'') ! i) (movement_delta a) of
            Threw e \<Rightarrow> (Threw e, w2)
          | Returned r \<Rightarrow>
              (Returned (StockOk mid (snd r)),
               snd (safeSave (with_movement db i (fst r) (movement_entry a mid w2))
                      False False w2)))"


section \<open>Cash sessions (services/ops_cashier.js)\<close>

text \<open>
  \<open>ensureCollections\<close> of the cashier.  \<open>db.caixa\<close> is kept when it is truthy and its
  \<open>typeof\<close> is \<open>object\<close>; \<open>get\<close> has made it a plain object before.
\<close>

definition cash_ensureCollections :: "jv \<Rightarrow> jv" where
  "cash_ensureCollections db =
     (let db1 = ensure_array ''cashSessions'' db in
      set_field db1 ''caixa''
        (default_field ''currentSessionId'' JNull (coerce_bool ''aberto''
           (if \<not> is_primitive (field db1 ''caixa'') then field db1 ''caixa''
            else JObj [(''aberto'', JBool False), (''currentSessionId'', JNull)]))))"

text \<open>
  \<open>currentSession(db)\<close> returns the session, a reference into \<open>db.cashSessions\<close>; the
  model returns its index.  The source calls \<open>ensureCollections(db)\<close> once more here, which
  changes nothing in a database that went through it.
\<close>

definition currentSession :: "jv \<Rightarrow> nat option" where
  "currentSession db =
     (let db1 = cash_ensureCollections db;
          cur = field (field db1 ''caixa'') ''currentSessionId''
      in if \<not> truthy cur then None
         else find_index (\<lambda>s. truthy s \<and> strict_eq (field s ''id'') cur)
                (elems (field db1 ''cashSessions'')))"

datatype cash_result =
    CashError op_error
  | OpenOk string
  | MovementOk string rat
  | CloseOk jv jv rat rat

text \<open>The session that \<open>open\<close> creates.\<close>

definition new_session :: "string \<Rightarrow> jv \<Rightarrow> jv \<Rightarrow> world \<Rightarrow> jv" where
  "new_session sid initial_c note w = JObj
     [(''id'', JStr sid),
      (''openedAtIso'', JStr (iso_now w)),
      (''closedAtIso'', JNull),
      (''openedBy'', user_stamp (currentUser w)),
      (''closedBy'', JNull),
      (''initial_c'', JNum (asInt initial_c 0)),
      (''expected_c'', JNum (asInt initial_c 0)),
      (''counted_c'', JNull),
      (''diff_c'', JNull),
      (''note'', js_or note (JStr '''')),
      (''movements'', JArr [])]"

text \<open>\<open>db.cashSessions.push(sess); db.caixa.aberto = true; db.caixa.currentSessionId = id\<close>\<close>

definition with_session :: "jv \<Rightarrow> string \<Rightarrow> jv \<Rightarrow> jv" where
  "with_session db sid sess =
     (let db1 = set_field db ''cashSessions'' (JArr (elems (field db ''cashSessions'') @ [sess]))
      in set_field db1 ''caixa''
           (set_field (set_field (field db1 ''caixa'') ''aberto'' (JBool True))
              ''currentSessionId'' (JStr sid)))"

text \<open>
  \<open>open({initial_c, note})\<close>; an argument that is left out is \<open>undefined\<close>, for which the
  defaults \<open>0\<close> and \<open>''\<close> give the same session.  \<open>OpenOk sessionId\<close> is the result
  \<open>{ok: true, sessionId}\<close>.
\<close>

definition cash_open :: "jv \<Rightarrow> jv \<Rightarrow> world \<Rightarrow> cash_result \<times> world" where
  "cash_open initial_c note w =
     (let db = cash_ensureCollections (fst (get w)); w1 = snd (get w) in
      if truthy (field (field db ''caixa'') ''aberto'') then (CashError CaixaJaAberto, w1)
      else
        let sid = fst (generateId ''cs'' w1); w2 = snd (generateId ''cs'' w1)
        in (OpenOk sid,
            snd (safeSave (with_session db sid (new_session sid initial_c note w2))
                   False False w2)))"

text \<open>The session after \<open>sess.movements.push(mv)\<close> and the update of \<open>sess.expected_c\<close>.\<close>

definition session_with_movement :: "jv \<Rightarrow> jv \<Rightarrow> jv" where
  "session_with_movement sess mv =
     (let s1 = set_field sess ''movements'' (JArr (elems (field sess ''movements'') @ [mv]))
      in set_field s1 ''expected_c''
           (JNum (asInt (field s1 ''expected_c'') 0 + num_field mv ''amount_c'')))"

definition cash_movement :: "string \<Rightarrow> string \<Rightarrow> rat \<Rightarrow> jv \<Rightarrow> world \<Rightarrow> jv" where
  "cash_movement mid t amount_c meta w = JObj
     [(''id'', JStr mid),
      (''atIso'', JStr (iso_now w)),
      (''type'', JStr t),
      (''amount_c'', JNum (asInt (JNum amount_c) 0)),
      (''meta'', js_or meta JNull)]"

definition with_session_at :: "jv \<Rightarrow> nat \<Rightarrow> jv \<Rightarrow> jv" where
  "with_session_at db i sess =
     set_field db ''cashSessions'' (JArr ((elems (field db ''cashSessions''))[i := sess]))"

text \<open>
  The internal \<open>addMovement(type, amount_c, meta)\<close> of the cashier.  \<open>sess.movements.push\<close>
  throws when the session has no array \<open>movements\<close>.  \<open>MovementOk movementId expected_c\<close>
  is the result \<open>{ok: true, movementId, expected_c}\<close>.
\<close>

definition cash_addMovement ::
    "string \<Rightarrow> rat \<Rightarrow> jv \<Rightarrow> world \<Rightarrow> cash_result outcome \<times> world" where
  "cash_addMovement t amount_c meta w =
     (let db = cash_ensureCollections (fst (get w)); w1 = snd (get w) in
      case currentSession db of
        None \<Rightarrow> (Returned (CashError CaixaNaoAberto), w1)
      | Some i \<Rightarrow>
          let sess = elems (field db ''cashSessions'') ! i;
              mid = fst (generateId ''cm'' w1); w2 = snd (generateId ''cm'' w1);
              mv = cash_movement mid t amount_c meta w2
          in if \<not> isArray (field sess ''movements'') then (Threw TypeError, w2)
             else
               let sess1 = session_with_movement sess mv
               in (Returned (MovementOk mid (num_field sess1 ''expected_c'')),
                   snd (safeSave (with_session_at db i sess1) False False w2)))"

text \<open>
  The own enumerable properties that an object spread \<open>{...v}\<close> copies: those of a plain
  object, the elements of an array and the characters of a string under their indices,
  nothing for the other values.
\<close>

definition spread_props :: "jv \<Rightarrow> (string \<times> jv) list" where
  "spread_props v = (case v of
      JObj kvs \<Rightarrow> own_props kvs
    | JArr xs \<Rightarrow> zip (map dec [0..<length xs]) xs
    | JStr s \<Rightarrow> zip (map dec [0..<length s]) (map (\<lambda>c. JStr [c]) s)
    | _ \<Rightarrow> [])"

text \<open>The object literal \<open>{k: x, ...v}\<close>.\<close>

definition obj_spread :: "string \<Rightarrow> jv \<Rightarrow> jv \<Rightarrow> jv" where
  "obj_spread k x v = JObj (foldl (\<lambda>acc kv. AList.update (fst kv) (snd kv) acc) [(k, x)] (spread_props v))"

text \<open>\<open>addSale({saleId, amount_c, meta})\<close>, \<open>meta\<close> being \<open>null\<close> when it is left out.\<close>

definition cash_addSale :: "jv \<Rightarrow> jv \<Rightarrow> jv \<Rightarrow> world \<Rightarrow> cash_result outcome \<times> world" where
  "cash_addSale saleId amount_c meta w =
     cash_addMovement ''venda'' \<bar>asInt amount_c 0\<bar>
       (obj_spread ''saleId'' saleId (if meta = JUndef then JNull else meta)) w"

text \<open>\<open>addVoid({saleId, amount_c, reason})\<close>, \<open>reason\<close> being \<open>''\<close> when it is left out.\<close>

definition cash_addVoid :: "jv \<Rightarrow> jv \<Rightarrow> jv \<Rightarrow> world \<Rightarrow> cash_result outcome \<times> world" where
  "cash_addVoid saleId amount_c reason w =
     cash_addMovement ''estorno'' (- \<bar>asInt amount_c 0\<bar>)
       (JObj [(''saleId'', saleId),
              (''reason'', if reason = JUndef then JStr '''' else reason)]) w"

text \<open>\<open>withdraw({amount_c, reason})\<close>, \<open>reason\<close> being "Sangria" when it is left out.\<close>

definition cash_withdraw :: "jv \<Rightarrow> jv \<Rightarrow> world \<Rightarrow> cash_result outcome \<times> world" where
  "cash_withdraw amount_c reason w =
     cash_addMovement ''sangria'' (- \<bar>asInt amount_c 0\<bar>)
       (JObj [(''reason'', if reason = JUndef then JStr ''Sangria'' else reason)]) w"

text \<open>\<open>reinforce({amount_c, reason})\<close>, \<open>reason\<close> being "Reforco", written with a cedilla
  (the code unit 231), when it is left out.\<close>

definition cash_reinforce :: "jv \<Rightarrow> jv \<Rightarrow> world \<Rightarrow> cash_result outcome \<times> world" where
  "cash_reinforce amount_c reason w =
     cash_addMovement ''reforco'' \<bar>asInt amount_c 0\<bar>
       (JObj [(''reason'', if reason = JUndef then JStr (''Refor'' @ [char_of (231 :: nat)] @ ''o'')
                           else reason)]) w"

text \<open>The session after the assignments of \<open>close\<close>.\<close>

definition closed_session :: "jv \<Rightarrow> jv \<Rightarrow> jv \<Rightarrow> world \<Rightarrow> jv" where
  "closed_session sess counted_c note w =
     (let s1 = set_field sess ''closedAtIso'' (JStr (iso_now w));
          s2 = set_field s1 ''closedBy'' (user_stamp (currentUser w));
          s3 = set_field s2 ''counted_c'' (JNum (asInt counted_c 0));
          s4 = set_field s3 ''diff_c''
                 (JNum (asInt (field s3 ''counted_c'') 0 - asInt (field s3 ''expected_c'') 0))
      in set_field s4 ''note'' (js_or note (js_or (field s4 ''note'') (JStr ''''))))"

text \<open>\<open>db.caixa.aberto = false; db.caixa.currentSessionId = null\<close>\<close>

definition caixa_closed :: "jv \<Rightarrow> jv" where
  "caixa_closed db =
     set_field db ''caixa''
       (set_field (set_field (field db ''caixa'') ''aberto'' (JBool False))
          ''currentSessionId'' JNull)"

text \<open>
  \<open>close({counted_c, note})\<close>.  \<open>CloseOk sessionId expected_c counted_c diff_c\<close> is the
  result \<open>{ok: true, sessionId, expected_c, counted_c, diff_c}\<close>, where \<open>sessionId\<close> and
  \<open>expected_c\<close> are the properties of the session as they are.
\<close>

definition cash_close :: "jv \<Rightarrow> jv \<Rightarrow> world \<Rightarrow> cash_result \<times> world" where
  "cash_close counted_c note w =
     (let db = cash_ensureCollections (fst (get w)); w1 = snd (get w) in
      case currentSession db of
        None \<Rightarrow> (CashError CaixaNaoAberto, w1)
      | Some i \<Rightarrow>
          let sess = closed_session (elems (field db ''cashSessions'') ! i) counted_c note w1
          in (CloseOk (field sess ''id'') (field sess ''expected_c'')
                (num_field sess ''counted_c'') (num_field sess ''diff_c''),
              snd (safeSave (caixa_closed (with_session_at db i sess)) False False w1)))"

text \<open>The world at another moment: only the readings of the clock differ.\<close>

definition at_time :: "nat \<Rightarrow> string \<Rightarrow> world \<Rightarrow> world" where
  "at_time t s w = w\<lparr>date_now := t, iso_now := s\<rparr>"


section \<open>Cancelling a sale (services/ops_sales_refund.js)\<close>

definition sales_ensureCollections :: "jv \<Rightarrow> jv" where
  "sales_ensureCollections db = ensure_array ''saleVoids'' (ensure_array ''vendas'' db)"

text \<open>\<open>findSale\<close> returns the sale, a reference into \<open>db.vendas\<close>; the model returns its
  index.\<close>

definition findSale :: "jv \<Rightarrow> jv \<Rightarrow> nat option" where
  "findSale db saleId =
     (let sid = trim (ToString (js_or saleId (JStr '''')))
      in find_index (\<lambda>v. truthy v \<and> trim (ToString (js_or (field v ''id'') (JStr ''''))) = sid)
           (elems (field db ''vendas'')))"

text \<open>\<open>db.saleVoids.find((x) => x && x.saleId === saleId)\<close>\<close>

definition already_voided :: "jv \<Rightarrow> jv \<Rightarrow> bool" where
  "already_voided db saleId =
     (find_index (\<lambda>x. truthy x \<and> strict_eq (field x ''saleId'') saleId)
        (elems (field db ''saleVoids'')) \<noteq> None)"

datatype sale_result = SaleError op_error | SaleOk string "string list"

text \<open>\<open>Number(it.qtd) || 0\<close>\<close>

definition item_qty :: "jv \<Rightarrow> jnum" where
  "item_qty it = (case ToNumber (field it ''qtd'') of NaN \<Rightarrow> Fin 0 | n \<Rightarrow> n)"

text \<open>\<open>qty <= 0\<close>\<close>

definition not_positive :: "jnum \<Rightarrow> bool" where
  "not_positive n = (case n of Fin r \<Rightarrow> r \<le> 0 | NInf \<Rightarrow> True | _ \<Rightarrow> False)"

text \<open>
  The argument \<open>qtyDelta: Math.trunc(qty)\<close>.  An infinite quantity stays infinite;
  \<open>addMovement\<close> reads it with \<open>asInt(qtyDelta, 0)\<close>, which gives 0 for it as it does for
  \<open>null\<close>.
\<close>

definition trunc_arg :: "jnum \<Rightarrow> jv" where
  "trunc_arg n = (case n of Fin r \<Rightarrow> JNum (trunc r) | _ \<Rightarrow> JNull)"

text \<open>The arguments of the call of \<open>stockOps.addMovement\<close> for one line of the sale.\<close>

definition restock_args :: "jv \<Rightarrow> jv \<Rightarrow> string \<Rightarrow> string \<Rightarrow> jnum \<Rightarrow> mov_args" where
  "restock_args saleId reason voidId code qty =
     \<lparr>a_type = JStr ''devolucao'', a_productCod = JStr code, a_qty = JUndef,
      a_qtyDelta = trunc_arg qty,
      a_reason = JStr (''Estorno venda '' @ ToString saleId @ '': '' @ ToString reason),
      a_meta = JObj [(''saleId'', saleId), (''voidId'', JStr voidId)]\<rparr>"

text \<open>
  The loop \<open>for (const it of itens)\<close>, with the identifiers of the movements created so
  far.  Reading \<open>it.cod\<close> throws when \<open>it\<close> is \<open>null\<close> or \<open>undefined\<close>; an exception of
  \<open>addMovement\<close> is not caught.
\<close>

fun restock_items ::
    "jv \<Rightarrow> jv \<Rightarrow> string \<Rightarrow> jv list \<Rightarrow> string list \<Rightarrow> world \<Rightarrow> string list outcome \<times> world" where
  "restock_items saleId reason voidId [] movs w = (Returned movs, w)"
| "restock_items saleId reason voidId (it # its) movs w =
     (if it = JNull \<or> it = JUndef then (Threw TypeError, w)
      else if trim (ToString (js_or (field it ''cod'') (JStr ''''))) = [] \<or>
              not_positive (item_qty it)
      then restock_items saleId reason voidId its movs w
      else (case stock_addMovement
                  (restock_args saleId reason voidId
                     (trim (ToString (js_or (field it ''cod'') (JStr '''')))) (item_qty it)) w of
              (Threw e, w') \<Rightarrow> (Threw e, w')
            | (Returned (StockOk mid q), w') \<Rightarrow>
                restock_items saleId reason voidId its (movs @ [mid]) w'
            | (Returned (StockError e), w') \<Rightarrow>
                restock_items saleId reason voidId its movs w'))"

text \<open>The record that \<open>cancelSale\<close> appends to \<open>db.saleVoids\<close>.\<close>

definition void_entry :: "string \<Rightarrow> jv \<Rightarrow> jv \<Rightarrow> string list \<Rightarrow> world \<Rightarrow> jv" where
  "void_entry voidId saleId reason movs w = JObj
     [(''id'', JStr voidId),
      (''atIso'', JStr (iso_now w)),
      (''saleId'', JStr (ToString saleId)),
      (''reason'', js_or reason (JStr '''')),
      (''createdBy'', user_stamp (currentUser w)),
      (''stockMovementsCreated'', JArr (map JStr movs))]"

text \<open>The sale after \<open>sale.status = 'cancelada'\<close> and the three assignments that follow.\<close>

definition cancelled_sale :: "jv \<Rightarrow> jv \<Rightarrow> world \<Rightarrow> jv" where
  "cancelled_sale sale reason w =
     set_field (set_field (set_field (set_field sale ''status'' (JStr ''cancelada''))
         ''cancelReason'' (js_or reason (JStr '''')))
       ''canceledAtIso'' (JStr (iso_now w)))
     ''canceledBy'' (user_stamp (currentUser w))"

text \<open>The database after \<open>db.saleVoids.push(entry)\<close> and the change of the sale at index
  \<open>i\<close> of \<open>db.vendas\<close>.\<close>

definition with_void :: "jv \<Rightarrow> nat \<Rightarrow> jv \<Rightarrow> jv \<Rightarrow> jv" where
  "with_void db i sale entry =
     set_field (set_field db ''saleVoids'' (JArr (elems (field db ''saleVoids'') @ [entry])))
       ''vendas'' (JArr ((elems (field db ''vendas''))[i := sale]))"

text \<open>
  \<open>cancelSale({saleId, reason, restock})\<close>; \<open>reason\<close> is "Cancelado" and \<open>restock\<close> is
  \<open>true\<close> when they are left out.  \<open>SaleOk voidId stockMovements\<close> is the result
  \<open>{ok: true, voidId, stockMovements}\<close>.

  The function reads the database once, at its start, into \<open>db\<close>.  \<open>addMovement\<close> and
  \<open>addVoid\<close> read the store again, each for itself, and save what they have changed;
  at its end \<open>cancelSale\<close> saves \<open>db\<close>.  The \<open>try\<close> around \<open>addVoid\<close> drops its result and
  its exception, not what it has stored.
\<close>

definition cancelSale :: "jv \<Rightarrow> jv \<Rightarrow> jv \<Rightarrow> world \<Rightarrow> sale_result outcome \<times> world" where
  "cancelSale saleId reason0 restock0 w =
     (let reason = (if reason0 = JUndef then JStr ''Cancelado'' else reason0);
          restock = (if restock0 = JUndef then True else truthy restock0);
          db = sales_ensureCollections (fst (get w)); w1 = snd (get w)
      in case findSale db saleId of
           None \<Rightarrow> (Returned (SaleError VendaNaoEncontrada), w1)
         | Some i \<Rightarrow>
             if already_voided db saleId then (Returned (SaleError VendaJaCancelada), w1)
             else
               let sale = elems (field db ''vendas'') ! i;
                   voidId = fst (generateId ''void'' w1); w2 = snd (generateId ''void'' w1)
               in case (if restock
                        then restock_items saleId reason voidId
                               (if isArray (field sale ''itens'') then elems (field sale ''itens'')
                                else []) [] w2
                        else (Returned [], w2)) of
                    (Threw e, w3) \<Rightarrow> (Threw e, w3)
                  | (Returned movs, w3) \<Rightarrow>
                      if is_primitive sale then (Threw TypeError, w3)
                      else
                        let db1 = with_void db i (cancelled_sale sale reason w3)
                                    (void_entry voidId saleId reason movs w3);
                            w4 = snd (cash_addVoid saleId
                                   (JNum (- \<bar>asInt (field sale ''total_c'') 0\<bar>)) reason w3)
                        in (Returned (SaleOk voidId movs), snd (safeSave db1 False False w4)))"


section \<open>Notions used in the statements\<close>

text \<open>The storage accepts every write: \<open>setItem\<close> never throws.\<close>

definition never_refuses :: "world \<Rightarrow> bool" where
  "never_refuses w = (\<forall>m k v. \<not> refuses w m k v)"

text \<open>The document that is stored under the storage key, when the text there is the
  serialisation of one.\<close>

definition stored_db :: "world \<Rightarrow> jv option" where
  "stored_db w = (case localStorage w (cfg_storageKey w) of
      Some (Json d) \<Rightarrow> Some d
    | _ \<Rightarrow> None)"

text \<open>Two worlds with the same configuration and the same environment.\<close>

definition same_env :: "world \<Rightarrow> world \<Rightarrow> bool" where
  "same_env w w' =
     (refuses w' = refuses w \<and> cfg_storageKey w' = cfg_storageKey w \<and>
      cfg_maxSnapshots w' = cfg_maxSnapshots w \<and> cfg_cooldownMs w' = cfg_cooldownMs w \<and>
      date_now w' = date_now w \<and> iso_now w' = iso_now w \<and>
      random_hex w' = random_hex w \<and> currentUser w' = currentUser w)"

text \<open>A product holds a quantity that is a number and not negative.\<close>

definition qtd_nonneg :: "jv \<Rightarrow> bool" where
  "qtd_nonneg p = (case field p ''qtd'' of JNum q \<Rightarrow> 0 \<le> q | _ \<Rightarrow> False)"

text \<open>Every product of \<open>db.estoque\<close> (every entry that is a plain object) has such a
  quantity.\<close>

definition estoque_nonneg :: "jv \<Rightarrow> bool" where
  "estoque_nonneg db = list_all (\<lambda>p. isObj p \<longrightarrow> qtd_nonneg p) (elems (field db ''estoque''))"

section \<open>Concrete inputs\<close>

text \<open>
  A world whose store holds the document \<open>doc\<close> under the key \<open>erp_db\<close> and nothing else:
  the configuration is the one of the source (20 snapshots, a cooldown of 3000 ms), no
  snapshot was taken yet, the storage accepts every write, nobody is logged in.
\<close>

definition ex_world :: "jv \<Rightarrow> world" where
  "ex_world doc =
     \<lparr>localStorage = Map.empty(''erp_db'' \<mapsto> Json doc),
      refuses = (\<lambda>m k v. False),
      cfg_storageKey = ''erp_db'',
      cfg_maxSnapshots = 20,
      cfg_cooldownMs = 3000,
      lastSnapshotAt = 0,
      recovery_state = \<lparr>rec_active = False, rec_reason = '''', rec_details = None, rec_since = None\<rparr>,
      lastReport = None,
      date_now = 5000,
      iso_now = ''2026-01-01T00:00:00.000Z'',
      random_hex = (\<lambda>n. dec (111111 + n)),
      random_calls = 0,
      currentUser = JNull\<rparr>"

text \<open>A database with one product, \<open>{cod: "A", nome: "Prod", qtd: 3}\<close>.\<close>

definition ex_stock_db :: jv where
  "ex_stock_db = JObj
     [(''estoque'', JArr [JObj [(''cod'', JStr ''A''), (''nome'', JStr ''Prod''),
                                (''qtd'', JNum 3)]])]"

text \<open>\<open>addMovement({type: "saida", productCod: cod, qty: 5})\<close>\<close>

definition ex_saida :: "string \<Rightarrow> mov_args" where
  "ex_saida cod =
     \<lparr>a_type = JStr ''saida'', a_productCod = JStr cod, a_qty = JNum 5, a_qtyDelta = JUndef,
      a_reason = JUndef, a_meta = JUndef\<rparr>"

text \<open>The database on which an operation of the cashier works, the session that is open
  in it, and the movements of the session at index \<open>i\<close> of a document.\<close>

definition cash_db :: "world \<Rightarrow> jv" where
  "cash_db w = cash_ensureCollections (fst (get w))"

definition session_at :: "jv \<Rightarrow> nat \<Rightarrow> jv" where
  "session_at d i = elems (field d ''cashSessions'') ! i"

definition session_movements :: "jv \<Rightarrow> nat \<Rightarrow> jv list" where
  "session_movements d i = elems (field (session_at d i) ''movements'')"

text \<open>No session of the database has the identifier \<open>sid\<close>.\<close>

definition fresh_session_id :: "string \<Rightarrow> jv \<Rightarrow> bool" where
  "fresh_session_id sid db =
     list_all (\<lambda>s. \<not> (truthy s \<and> strict_eq (field s ''id'') (JStr sid)))
       (elems (field db ''cashSessions''))"

text \<open>
  The call of a cashier operation in the world \<open>w\<close>, with the result \<open>res\<close>, has
  appended to the open session, at index \<open>i\<close>, one movement of type \<open>t\<close> whose stored
  \<open>amount_c\<close> is \<open>amount\<close>, and has added \<open>amount\<close> to \<open>expected_c\<close>: in the result and
  in the stored document.
\<close>

definition appended_movement ::
    "world \<Rightarrow> nat \<Rightarrow> cash_result outcome \<times> world \<Rightarrow> string \<Rightarrow> rat \<Rightarrow> bool" where
  "appended_movement w i res t amount =
     (\<exists>mid d mv.
        fst res = Returned (MovementOk mid
          (asInt (field (session_at (cash_db w) i) ''expected_c'') 0 + amount)) \<and>
        stored_db (snd res) = Some d \<and>
        session_movements d i = session_movements (cash_db w) i @ [mv] \<and>
        field mv ''type'' = JStr t \<and>
        field mv ''amount_c'' = JNum amount \<and>
        field (session_at d i) ''expected_c'' =
          JNum (asInt (field (session_at (cash_db w) i) ''expected_c'') 0 + amount))"

text \<open>A database in which the session \<open>cs_1\<close> is open, with 1000 expected and no
  movement yet.\<close>

definition ex_cash_db :: jv where
  "ex_cash_db = JObj
     [(''caixa'', JObj [(''aberto'', JBool True), (''currentSessionId'', JStr ''cs_1'')]),
      (''cashSessions'', JArr [JObj [(''id'', JStr ''cs_1''), (''initial_c'', JNum 1000),
                                     (''expected_c'', JNum 1000), (''movements'', JArr [])]])]"

text \<open>
  In the document \<open>d\<close> the session with the identifier \<open>sid\<close> is the open one and is
  found at index \<open>n\<close> of \<open>cashSessions\<close>.
\<close>

definition has_session_id :: "string \<Rightarrow> jv \<Rightarrow> bool" where
  "has_session_id sid s = (truthy s \<and> strict_eq (field s ''id'') (JStr sid))"

definition open_in :: "jv \<Rightarrow> string \<Rightarrow> nat \<Rightarrow> bool" where
  "open_in d sid n =
     (isObj d \<and> isObj (field d ''caixa'') \<and>
      field (field d ''caixa'') ''currentSessionId'' = JStr sid \<and> sid \<noteq> [] \<and>
      find_index (has_session_id sid) (elems (field d ''cashSessions'')) = Some n)"

text \<open>A storage that is full: \<open>setItem\<close> throws for every write.\<close>

definition full_storage :: "world \<Rightarrow> world" where
  "full_storage w = w\<lparr>refuses := (\<lambda>m k v. True)\<rparr>"

text \<open>The flag that \<open>setRecovery(true, 'storage_error', {message})\<close> leaves.\<close>

definition storage_error_flag :: "jserr \<Rightarrow> string \<Rightarrow> recovery" where
  "storage_error_flag e now =
     \<lparr>rec_active = True, rec_reason = ''storage_error'', rec_details = Some e,
      rec_since = Some now\<rparr>"

text \<open>The snapshot is due: it is forced, or the cooldown has passed.\<close>

definition snapshot_due :: "bool \<Rightarrow> world \<Rightarrow> bool" where
  "snapshot_due forceSnapshot w =
     (forceSnapshot \<or> int (date_now w) - lastSnapshotAt w \<ge> cfg_cooldownMs w)"

text \<open>A database with the product \<open>X\<close>, 10 in stock, and the active sale \<open>s1\<close> of 3 of it.\<close>

definition ex_sale_db :: jv where
  "ex_sale_db = JObj
     [(''estoque'', JArr [JObj [(''cod'', JStr ''X''), (''nome'', JStr ''Prod X''),
                                (''qtd'', JNum 10)]]),
      (''vendas'', JArr [JObj [(''id'', JStr ''s1''), (''status'', JStr ''ativa''),
                               (''itens'', JArr [JObj [(''cod'', JStr ''X''), (''qtd'', JNum 3),
                                                       (''preco_c'', JNum 100)]]),
                               (''total_c'', JNum 300)]])]"


section \<open>Basic facts about values\<close>

lemma isObj_simps [simp]:
  "isObj (JObj kvs)" "\<not> isObj (JArr xs)" "\<not> isObj (JStr s)" "\<not> isObj (JNum r)"
  "\<not> isObj (JBool b)" "\<not> isObj JNull" "\<not> isObj JUndef"
  by (simp_all add: isObj_def)

lemma isArray_simps [simp]:
  "isArray (JArr xs)" "\<not> isArray (JObj kvs)" "\<not> isArray (JStr s)" "\<not> isArray (JNum r)"
  "\<not> isArray (JBool b)" "\<not> isArray JNull" "\<not> isArray JUndef"
  by (simp_all add: isArray_def)

lemma elems_simps [simp]:
  "elems (JArr xs) = xs" "elems (JObj kvs) = []" "elems (JStr s) = []" "elems (JNum r) = []"
  "elems (JBool b) = []" "elems JNull = []" "elems JUndef = []"
  by (simp_all add: elems_def)

lemma elems_not_array [simp]: "\<not> isArray v \<Longrightarrow> elems v = []"
  by (cases v) simp_all

lemma is_primitive_simps [simp]:
  "\<not> is_primitive (JObj kvs)" "\<not> is_primitive (JArr xs)" "is_primitive (JStr s)"
  "is_primitive (JNum r)" "is_primitive (JBool b)" "is_primitive JNull" "is_primitive JUndef"
  by (simp_all add: is_primitive_def)

lemma isObj_not_primitive [simp]: "isObj v \<Longrightarrow> \<not> is_primitive v"
  by (cases v) simp_all

lemma field_JObj: "field (JObj kvs) k = (case map_of kvs k of Some x \<Rightarrow> x | None \<Rightarrow> JUndef)"
  by (simp add: field_def)

lemma field_non_obj [simp]: "\<not> isObj v \<Longrightarrow> field v k = JUndef"
  by (cases v) (simp_all add: field_def)

lemma set_field_JObj: "set_field (JObj kvs) k x = JObj (AList.update k x kvs)"
  by (simp add: set_field_def)

lemma set_field_non_obj [simp]: "\<not> isObj v \<Longrightarrow> set_field v k x = v"
  by (cases v) (simp_all add: set_field_def)

lemma isObj_set_field [simp]: "isObj (set_field v k x) = isObj v"
  by (cases v) (simp_all add: set_field_def)

lemma field_set_field [simp]:
  "isObj v \<Longrightarrow> field (set_field v k x) k' = (if k' = k then x else field v k')"
  by (cases v) (simp_all add: set_field_def field_def update_conv')

lemma trunc_Ints [simp]: "trunc r \<in> \<int>"
  by (simp add: trunc_def)

lemma trunc_id: "r \<in> \<int> \<Longrightarrow> trunc r = r"
  by (auto simp: trunc_def elim!: Ints_cases)

lemma trunc_numeral [simp]:
  "trunc (numeral n) = numeral n" "trunc 0 = 0" "trunc 1 = 1" "trunc (- numeral n) = - numeral n"
  by (simp_all add: trunc_id)

lemma asInt_Ints [simp]: "asInt x d \<in> \<int>"
  by (simp add: asInt_def)

lemma asInt_JNum [simp]: "asInt (JNum r) d = trunc r"
  by (simp add: asInt_def asNum_def)

lemma asNum_JNum [simp]: "asNum (JNum r) d = r"
  by (simp add: asNum_def)


section \<open>Facts about normalisation\<close>

lemma isObj_steps [simp]:
  "isObj (coerce_str k v) = isObj v"
  "isObj (coerce_int k d v) = isObj v"
  "isObj (coerce_num k v) = isObj v"
  "isObj (coerce_bool k v) = isObj v"
  "isObj (default_field k x v) = isObj v"
  "isObj (ensure_array k v) = isObj v"
  "isObj (ensure_obj k x v) = isObj v"
  "isObj (clamp_neg k v) = isObj v"
  by (simp_all add: coerce_str_def coerce_int_def coerce_num_def coerce_bool_def
      default_field_def ensure_array_def ensure_obj_def clamp_neg_def)

lemma field_coerce_str [simp]:
  "isObj v \<Longrightarrow> field (coerce_str k v) k' =
     (if k' = k then JStr (trim (asStr (field v k))) else field v k')"
  by (simp add: coerce_str_def)

lemma field_coerce_int [simp]:
  "isObj v \<Longrightarrow> field (coerce_int k d v) k' =
     (if k' = k then JNum (asInt (field v k) d) else field v k')"
  by (simp add: coerce_int_def)

lemma field_coerce_num [simp]:
  "isObj v \<Longrightarrow> field (coerce_num k v) k' =
     (if k' = k then JNum (asNum (field v k) 0) else field v k')"
  by (simp add: coerce_num_def)

lemma field_coerce_bool [simp]:
  "isObj v \<Longrightarrow> field (coerce_bool k v) k' =
     (if k' = k then JBool (truthy (field v k)) else field v k')"
  by (simp add: coerce_bool_def)

lemma field_default_field [simp]:
  "isObj v \<Longrightarrow> field (default_field k x v) k' =
     (if k' = k then js_or (field v k) x else field v k')"
  by (simp add: default_field_def)

lemma field_ensure_array [simp]:
  "isObj v \<Longrightarrow> field (ensure_array k v) k' =
     (if k' = k then (if isArray (field v k) then field v k else JArr []) else field v k')"
  by (simp add: ensure_array_def)

lemma field_ensure_obj [simp]:
  "isObj v \<Longrightarrow> field (ensure_obj k x v) k' =
     (if k' = k then (if isObj (field v k) then field v k else x) else field v k')"
  by (simp add: ensure_obj_def)

lemma field_clamp_neg [simp]:
  "isObj v \<Longrightarrow> field (clamp_neg k v) k' =
     (if k' = k \<and> num_field v k < 0 then JNum 0 else field v k')"
  by (simp add: clamp_neg_def)

lemma num_field_JNum [simp]: "field v k = JNum r \<Longrightarrow> num_field v k = r"
  by (simp add: num_field_def)

lemma str_field_JStr [simp]: "field v k = JStr s \<Longrightarrow> str_field v k = s"
  by (simp add: str_field_def)

lemma isObj_defaultDB [simp]: "isObj (defaultDB now)"
  by (simp add: defaultDB_def)

lemma isObj_norm_meta [simp]: "isObj (norm_meta now db) = isObj db"
  by (simp add: norm_meta_def)

lemma isObj_norm_caixa [simp]: "isObj (norm_caixa db) = isObj db"
  by (simp add: norm_caixa_def)

lemma isObj_norm_shape [simp]: "isObj (norm_shape now db) = isObj db"
  by (simp add: norm_shape_def)

lemma isObj_norm_estoque [simp]: "isObj (norm_estoque db) = isObj db"
  by (simp add: norm_estoque_def)

lemma isObj_norm_vendas [simp]: "isObj (norm_vendas now db) = isObj db"
  by (simp add: norm_vendas_def)

lemma isObj_normalizeDB [simp]: "isObj (fst (normalizeDB now db))"
  by (simp add: normalizeDB_def)

lemma field_norm_meta:
  "isObj db \<Longrightarrow> k \<noteq> ''meta'' \<Longrightarrow> field (norm_meta now db) k = field db k"
  by (simp add: norm_meta_def)

lemma field_norm_caixa:
  "isObj db \<Longrightarrow> k \<noteq> ''caixa'' \<Longrightarrow> field (norm_caixa db) k = field db k"
  by (simp add: norm_caixa_def)

lemma estoque_norm_shape:
  "isObj db \<Longrightarrow> field (norm_shape now db) ''estoque'' =
     (if isArray (field db ''estoque'') then field db ''estoque'' else JArr [])"
  by (simp add: norm_shape_def field_norm_meta field_norm_caixa)

lemma estoque_normalizeDB:
  "field (fst (normalizeDB now db)) ''estoque'' =
     JArr (map (\<lambda>p. fst (norm_produto p)) (elems (field db ''estoque'')))"
proof (cases "isObj db")
  case True
  then show ?thesis
    by (simp add: normalizeDB_def norm_vendas_def norm_estoque_def estoque_norm_shape)
next
  case False
  then show ?thesis
    by (simp add: normalizeDB_def defaultDB_def field_JObj)
qed

lemma isObj_produto_coerced [simp]: "isObj (produto_coerced p) = isObj p"
  by (simp add: produto_coerced_def)

lemma isObj_norm_produto [simp]: "isObj (fst (norm_produto p)) = isObj p"
  by (simp add: norm_produto_def)

lemma qtd_produto_coerced:
  "isObj p \<Longrightarrow> field (produto_coerced p) ''qtd'' = JNum (asInt (field p ''qtd'') 0)"
  by (simp add: produto_coerced_def)

lemma qtd_norm_produto:
  "isObj p \<Longrightarrow> field (fst (norm_produto p)) ''qtd'' = JNum (max 0 (asInt (field p ''qtd'') 0))"
  by (simp add: norm_produto_def qtd_produto_coerced max_def)

section \<open>Facts about the store\<close>

lemma isObj_not_undef [simp]: "isObj v \<Longrightarrow> v \<noteq> JUndef"
  by (cases v) simp_all

lemma same_env_refl [simp]: "same_env w w"
  by (simp add: same_env_def)

lemma same_env_trans: "same_env w w' \<Longrightarrow> same_env w' w'' \<Longrightarrow> same_env w w''"
  by (simp add: same_env_def)

lemma never_refuses_same_env: "same_env w w' \<Longrightarrow> never_refuses w' = never_refuses w"
  by (simp add: same_env_def never_refuses_def)

lemma same_env_setItem [simp]: "same_env w (snd (setItem k v w))"
  by (simp add: setItem_def same_env_def)

lemma same_env_removeItem [simp]: "same_env w (removeItem k w)"
  by (simp add: removeItem_def same_env_def)

lemma same_env_setRecovery [simp]: "same_env w (setRecovery a r d w)"
  by (simp add: setRecovery_def same_env_def)

lemma same_env_generateId [simp]: "same_env w (snd (generateId p w))"
  by (simp add: generateId_def same_env_def)

lemma same_env_normalizeDB_w [simp]: "same_env w (snd (normalizeDB_w db w))"
  by (simp add: normalizeDB_w_def same_env_def)

lemma same_env_createSnapshot [simp]: "same_env w (snd (createSnapshot k db n w))"
  by (simp add: createSnapshot_def saveSnapshots_def setItem_def same_env_def Let_def
      split: prod.splits outcome.splits)

lemma same_env_save_failed [simp]: "same_env w (snd (save_failed e w))"
  by (simp add: save_failed_def)

lemma same_env_safeSave [simp]: "same_env w (snd (safeSave db f s w))"
  by (auto simp: safeSave_def normalizeDB_w_def setItem_def removeItem_def createSnapshot_def
      saveSnapshots_def save_failed_def setRecovery_def same_env_def Let_def
      split: prod.splits outcome.splits)

lemma same_env_get [simp]: "same_env w (snd (get w))"
proof -
  have "same_env w (snd (safeSave db f s (setRecovery a r d w)))" for db f s a r d
    by (rule same_env_trans [OF same_env_setRecovery same_env_safeSave])
  then show ?thesis
    by (simp add: get_def Let_def split: option.splits outcome.splits)
qed

lemma stored_safeSave:
  "never_refuses w \<Longrightarrow>
   stored_db (snd (safeSave db f False w)) = Some (fst (normalizeDB (iso_now w) db))"
  by (auto simp: safeSave_def normalizeDB_w_def setItem_def removeItem_def createSnapshot_def
      saveSnapshots_def save_failed_def never_refuses_def stored_db_def stringify_item_def
      snapKey_def Let_def split: prod.splits outcome.splits)

section \<open>Stock movements\<close>

lemma find_index_Some: "find_index P xs = Some i \<Longrightarrow> i < length xs \<and> P (xs ! i)"
proof (induction xs arbitrary: i)
  case Nil
  then show ?case by simp
next
  case (Cons x xs)
  then show ?case by (cases i) (auto split: if_splits)
qed

lemma find_index_None: "find_index P xs = None \<longleftrightarrow> (\<forall>x \<in> set xs. \<not> P x)"
  by (induction xs) auto

lemma estoque_nonneg_normalizeDB: "estoque_nonneg (fst (normalizeDB now db))"
  by (simp add: estoque_nonneg_def estoque_normalizeDB list_all_iff qtd_nonneg_def
      qtd_norm_produto)

lemma enforce_sign_Ints [simp]: "d \<in> \<int> \<Longrightarrow> enforce_sign t d \<in> \<int>"
  by (simp add: enforce_sign_def Let_def)

lemma movement_delta_Ints [simp]: "movement_delta a \<in> \<int>"
  by (simp add: movement_delta_def)

lemma isObj_stock_ensureCollections [simp]:
  "isObj (stock_ensureCollections db) = isObj db"
  by (simp add: stock_ensureCollections_def)

lemma isObj_get [simp]: "isObj (fst (get w))"
  by (simp add: get_def normalizeDB_w_def Let_def split: option.splits outcome.splits)

lemma applyDeltaToProduct_eq:
  "\<not> is_primitive p \<Longrightarrow>
   applyDeltaToProduct p d =
     Returned (set_field p ''qtd'' (JNum (max 0 (asInt (field p ''qtd'') 0 + trunc d))),
               max 0 (asInt (field p ''qtd'') 0 + trunc d))"
  by (simp add: applyDeltaToProduct_def Let_def max_def)

lemma isObj_with_movement [simp]: "isObj (with_movement db i p mv) = isObj db"
  by (simp add: with_movement_def)

lemma estoque_with_movement:
  "isObj db \<Longrightarrow>
   field (with_movement db i p mv) ''estoque'' = JArr ((elems (field db ''estoque''))[i := p])"
  by (simp add: with_movement_def)

lemma stock_addMovement_not_found:
  "findProduct (stock_ensureCollections (fst (get w))) (a_productCod a) = None \<Longrightarrow>
   stock_addMovement a w = (Returned (StockError ProdutoNaoEncontrado), snd (get w))"
  by (simp add: stock_addMovement_def Let_def)

lemma stock_addMovement_found:
  assumes "findProduct (stock_ensureCollections (fst (get w))) (a_productCod a) = Some i"
    and "\<not> is_primitive (elems (field (stock_ensureCollections (fst (get w))) ''estoque'') ! i)"
  shows "stock_addMovement a w =
     (Returned (StockOk (fst (generateId ''sm'' (snd (get w))))
        (max 0 (asInt (field (elems (field (stock_ensureCollections (fst (get w))) ''estoque'') ! i)
                         ''qtd'') 0 + movement_delta a))),
      snd (safeSave
        (with_movement (stock_ensureCollections (fst (get w))) i
           (set_field (elems (field (stock_ensureCollections (fst (get w))) ''estoque'') ! i) ''qtd''
              (JNum (max 0 (asInt (field (elems (field (stock_ensureCollections (fst (get w)))
                       ''estoque'') ! i) ''qtd'') 0 + movement_delta a))))
           (movement_entry a (fst (generateId ''sm'' (snd (get w))))
              (snd (generateId ''sm'' (snd (get w))))))
        False False (snd (generateId ''sm'' (snd (get w))))))"
  using assms
  by (simp add: stock_addMovement_def Let_def applyDeltaToProduct_eq trunc_id)

lemma stock_addMovement_primitive:
  assumes "findProduct (stock_ensureCollections (fst (get w))) (a_productCod a) = Some i"
    and "is_primitive (elems (field (stock_ensureCollections (fst (get w))) ''estoque'') ! i)"
  shows "fst (stock_addMovement a w) = Threw TypeError"
  using assms
  by (simp add: stock_addMovement_def Let_def applyDeltaToProduct_def)

section \<open>Facts about stored documents\<close>

lemma isObj_json_clean [simp]: "isObj (json_clean v) = isObj v"
  by (cases v) simp_all

lemma isArray_json_clean [simp]: "isArray (json_clean v) = isArray v"
  by (cases v) simp_all

lemma elems_json_clean: "elems (json_clean v) = map json_clean (elems v)"
  by (cases v) simp_all

lemma truthy_json_clean [simp]: "truthy (json_clean v) = truthy v"
  by (cases v) simp_all

lemma json_clean_primitive: "is_primitive v \<Longrightarrow> v \<noteq> JUndef \<Longrightarrow> json_clean v = v"
  by (cases v) simp_all

lemma is_primitive_json_clean [simp]: "is_primitive (json_clean v) = is_primitive v"
  by (cases v) simp_all

lemma map_of_filter_distinct:
  "distinct (map fst l) \<Longrightarrow>
   map_of (filter P l) k =
     (case map_of l k of None \<Rightarrow> None | Some v \<Rightarrow> if P (k, v) then Some v else None)"
proof (induction l)
  case Nil
  then show ?case by simp
next
  case (Cons a l)
  obtain k' v' where a: "a = (k', v')" by (cases a)
  from Cons.prems a have notin: "k' \<notin> fst ` set l" by simp
  have none: "map_of l k' = None"
    using notin by (simp add: map_of_eq_None_iff)
  have none': "map_of (filter P l) k' = None"
    using notin by (auto simp: map_of_eq_None_iff)
  from Cons show ?case
    by (auto simp: a none none' split: option.splits)
qed

lemma map_of_json_clean:
  "map_of (map (\<lambda>kv. (fst kv, f (snd kv))) (filter (\<lambda>kv. snd kv \<noteq> u) (own_props kvs))) k =
     (case map_of kvs k of None \<Rightarrow> None | Some x \<Rightarrow> if x = u then None else Some (f x))"
proof -
  have "map_of (map (\<lambda>kv. (fst kv, f (snd kv))) l) k = map_option f (map_of l k)"
    for l :: "(string \<times> jv) list"
    by (induction l) auto
  then show ?thesis
    by (simp add: map_of_filter_distinct own_props_def map_of_clearjunk split: option.splits)
qed

lemma field_json_clean:
  "field (json_clean v) k = (if field v k = JUndef then JUndef else json_clean (field v k))"
proof (cases v)
  case (JObj kvs)
  then show ?thesis
    by (simp add: field_JObj map_of_json_clean split: option.splits)
qed simp_all

lemma strict_eq_field_json_clean:
  "x \<noteq> JUndef \<Longrightarrow> strict_eq (field (json_clean s) k) x = strict_eq (field s k) x"
proof (cases "is_primitive (field s k)")
  case True
  assume "x \<noteq> JUndef"
  with True show ?thesis
    by (auto simp: field_json_clean strict_eq_def json_clean_primitive)
next
  case False
  then show ?thesis
    by (auto simp: field_json_clean strict_eq_def)
qed

lemma stored_db_Some:
  "stored_db w = Some d \<longleftrightarrow> localStorage w (cfg_storageKey w) = Some (Json d)"
  by (auto simp: stored_db_def split: option.splits item.splits)

lemma get_stored:
  "stored_db w = Some d \<Longrightarrow> fst (get w) = fst (normalizeDB (iso_now w) (json_clean d))"
  by (simp add: stored_db_Some get_def raw_falsy_def JSON_parse_item_def normalizeDB_w_def)

lemma stored_at_time [simp]: "stored_db (at_time t s w) = stored_db w"
  by (simp add: stored_db_def at_time_def)

lemma never_refuses_at_time [simp]: "never_refuses (at_time t s w) = never_refuses w"
  by (simp add: never_refuses_def at_time_def)

lemma iso_now_at_time [simp]: "iso_now (at_time t s w) = s"
  by (simp add: at_time_def)

lemma field_normalizeDB_other:
  assumes "isObj db"
    and "k \<notin> {''schemaVersion'', ''meta'', ''users'', ''settings'', ''estoque'', ''vendas'',
               ''caixa'', ''devedores'', ''auditLog''}"
  shows "field (fst (normalizeDB now db)) k = field db k"
  using assms
  by (simp add: normalizeDB_def norm_vendas_def norm_estoque_def norm_shape_def
      field_norm_meta field_norm_caixa)

lemma caixa_norm_shape:
  "isObj db \<Longrightarrow> field (norm_shape now db) ''caixa'' =
     ensure_array ''aberturas'' (ensure_array ''movimentos'' (coerce_bool ''aberto''
       (if isObj (field db ''caixa'') then field db ''caixa'' else default_caixa)))"
  by (simp add: norm_shape_def norm_caixa_def field_norm_meta)

lemma caixa_normalizeDB:
  "isObj db \<Longrightarrow> field (fst (normalizeDB now db)) ''caixa'' =
     ensure_array ''aberturas'' (ensure_array ''movimentos'' (coerce_bool ''aberto''
       (if isObj (field db ''caixa'') then field db ''caixa'' else default_caixa)))"
  by (simp add: normalizeDB_def norm_vendas_def norm_estoque_def caixa_norm_shape)

lemma isObj_default_caixa [simp]: "isObj default_caixa"
  by (simp add: default_caixa_def)

lemma isObj_caixa_normalizeDB [simp]: "isObj (field (fst (normalizeDB now db)) ''caixa'')"
proof (cases "isObj db")
  case True
  then show ?thesis by (simp add: caixa_normalizeDB)
next
  case False
  then show ?thesis by (simp add: normalizeDB_def defaultDB_def field_JObj)
qed

lemma isObj_caixa_get [simp]: "isObj (field (fst (get w)) ''caixa'')"
  by (simp add: get_def normalizeDB_w_def defaultDB_def field_JObj Let_def
      split: option.splits outcome.splits)

section \<open>Cash sessions\<close>

lemma isObj_cash_ensureCollections [simp]: "isObj (cash_ensureCollections db) = isObj db"
  by (simp add: cash_ensureCollections_def Let_def)

lemma sessions_cash_ensureCollections:
  "isObj db \<Longrightarrow> field (cash_ensureCollections db) ''cashSessions'' =
     (if isArray (field db ''cashSessions'') then field db ''cashSessions'' else JArr [])"
  by (simp add: cash_ensureCollections_def Let_def)

lemma caixa_cash_ensureCollections:
  "isObj db \<Longrightarrow> isObj (field db ''caixa'') \<Longrightarrow>
   field (cash_ensureCollections db) ''caixa'' =
     default_field ''currentSessionId'' JNull (coerce_bool ''aberto'' (field db ''caixa''))"
  by (simp add: cash_ensureCollections_def Let_def)

lemma js_or_idem [simp]: "js_or (js_or x y) y = js_or x y"
  by (simp add: js_or_def)

lemma truthy_js_or_JNull [simp]: "truthy (js_or x JNull) = truthy x"
  by (simp add: js_or_def)

lemma isObj_cash_db [simp]: "isObj (cash_db w)"
  by (simp add: cash_db_def)

lemma isArray_sessions_cash_db [simp]: "isArray (field (cash_db w) ''cashSessions'')"
  by (simp add: cash_db_def sessions_cash_ensureCollections)

lemma isObj_caixa_cash_db [simp]: "isObj (field (cash_db w) ''caixa'')"
  by (simp add: cash_db_def caixa_cash_ensureCollections)

lemma sessions_cash_db:
  "elems (field (cash_db w) ''cashSessions'') = elems (field (fst (get w)) ''cashSessions'')"
  by (simp add: cash_db_def sessions_cash_ensureCollections)

lemma cur_cash_db:
  "field (field (cash_db w) ''caixa'') ''currentSessionId'' =
     js_or (field (field (fst (get w)) ''caixa'') ''currentSessionId'') JNull"
  by (simp add: cash_db_def caixa_cash_ensureCollections)

lemma aberto_cash_db:
  "field (field (cash_db w) ''caixa'') ''aberto'' =
     JBool (truthy (field (field (fst (get w)) ''caixa'') ''aberto''))"
  by (simp add: cash_db_def caixa_cash_ensureCollections)

lemma currentSession_cash_db:
  "currentSession (cash_db w) =
     (if \<not> truthy (field (field (cash_db w) ''caixa'') ''currentSessionId'') then None
      else find_index (\<lambda>s. truthy s \<and>
             strict_eq (field s ''id'') (field (field (cash_db w) ''caixa'') ''currentSessionId''))
             (elems (field (cash_db w) ''cashSessions'')))"
  by (auto simp: currentSession_def Let_def sessions_cash_ensureCollections
      caixa_cash_ensureCollections js_or_def)

lemma currentSession_Some:
  assumes "currentSession (cash_db w) = Some i"
  shows "i < length (elems (field (cash_db w) ''cashSessions''))"
    and "isObj (session_at (cash_db w) i)"
    and "strict_eq (field (session_at (cash_db w) i) ''id'')
           (field (field (cash_db w) ''caixa'') ''currentSessionId'')"
    and "truthy (field (field (cash_db w) ''caixa'') ''currentSessionId'')"
proof -
  let ?cur = "field (field (cash_db w) ''caixa'') ''currentSessionId''"
  let ?xs = "elems (field (cash_db w) ''cashSessions'')"
  from assms have cur: "truthy ?cur"
    and fi: "find_index (\<lambda>s. truthy s \<and> strict_eq (field s ''id'') ?cur) ?xs = Some i"
    by (simp_all add: currentSession_cash_db split: if_splits)
  from find_index_Some [OF fi]
  have i: "i < length ?xs" and m: "strict_eq (field (?xs ! i) ''id'') ?cur"
    by simp_all
  show "i < length ?xs" by (rule i)
  show "truthy ?cur" by (rule cur)
  show "strict_eq (field (session_at (cash_db w) i) ''id'') ?cur"
    using m by (simp add: session_at_def)
  have "field (?xs ! i) ''id'' \<noteq> JUndef"
    using m cur by (auto simp: strict_eq_def)
  then show "isObj (session_at (cash_db w) i)"
    by (cases "isObj (?xs ! i)") (simp_all add: session_at_def)
qed

lemma same_env_at_time_get: "same_env w (snd (generateId p (snd (get w))))"
  by (rule same_env_trans [OF same_env_get same_env_generateId])

lemma cash_addMovement_ok:
  assumes "currentSession (cash_db w) = Some i"
    and "isArray (field (session_at (cash_db w) i) ''movements'')"
  shows "cash_addMovement t a meta w =
     (Returned (MovementOk (fst (generateId ''cm'' (snd (get w))))
        (asInt (field (session_at (cash_db w) i) ''expected_c'') 0 + trunc a)),
      snd (safeSave
        (with_session_at (cash_db w) i
           (session_with_movement (session_at (cash_db w) i)
              (cash_movement (fst (generateId ''cm'' (snd (get w)))) t a meta
                 (snd (generateId ''cm'' (snd (get w)))))))
        False False (snd (generateId ''cm'' (snd (get w))))))"
proof -
  have obj: "isObj (session_at (cash_db w) i)"
    by (rule currentSession_Some(2) [OF assms(1)])
  have e: "num_field (session_with_movement (session_at (cash_db w) i)
      (cash_movement mid t a meta w2)) ''expected_c'' =
      asInt (field (session_at (cash_db w) i) ''expected_c'') 0 + trunc a" for mid w2
    using obj
    by (simp add: session_with_movement_def Let_def cash_movement_def field_JObj)
  show ?thesis
    using assms
    by (simp add: cash_addMovement_def Let_def e flip: cash_db_def session_at_def)
qed

lemma cash_addMovement_closed:
  "currentSession (cash_db w) = None \<Longrightarrow>
   cash_addMovement t a meta w = (Returned (CashError CaixaNaoAberto), snd (get w))"
  by (simp add: cash_addMovement_def Let_def flip: cash_db_def)

lemma sessions_with_session_at:
  "isObj db \<Longrightarrow>
   field (with_session_at db i s) ''cashSessions'' = JArr ((elems (field db ''cashSessions''))[i := s])"
  by (simp add: with_session_at_def)

lemma isObj_with_session_at [simp]: "isObj (with_session_at db i s) = isObj db"
  by (simp add: with_session_at_def)

lemma field_with_session_at:
  "isObj db \<Longrightarrow> k \<noteq> ''cashSessions'' \<Longrightarrow> field (with_session_at db i s) k = field db k"
  by (simp add: with_session_at_def)

lemma stored_cash_addMovement:
  assumes "currentSession (cash_db w) = Some i"
    and "isArray (field (session_at (cash_db w) i) ''movements'')"
    and "never_refuses w"
  shows "\<exists>d mv. stored_db (snd (cash_addMovement t a meta w)) = Some d \<and> isObj d \<and>
      field d ''cashSessions'' =
        JArr ((elems (field (cash_db w) ''cashSessions''))
               [i := session_with_movement (session_at (cash_db w) i) mv]) \<and>
      field mv ''type'' = JStr t \<and> field mv ''amount_c'' = JNum (trunc a)"
proof -
  let ?w2 = "snd (generateId ''cm'' (snd (get w)))"
  let ?mv = "cash_movement (fst (generateId ''cm'' (snd (get w)))) t a meta ?w2"
  let ?db = "with_session_at (cash_db w) i (session_with_movement (session_at (cash_db w) i) ?mv)"
  have nr: "never_refuses ?w2"
    using assms(3) never_refuses_same_env [OF same_env_at_time_get] by simp
  have "stored_db (snd (cash_addMovement t a meta w)) = Some (fst (normalizeDB (iso_now ?w2) ?db))"
    by (simp add: cash_addMovement_ok [OF assms(1,2)] stored_safeSave [OF nr])
  moreover have "field (fst (normalizeDB (iso_now ?w2) ?db)) ''cashSessions'' =
      JArr ((elems (field (cash_db w) ''cashSessions''))
             [i := session_with_movement (session_at (cash_db w) i) ?mv])"
    by (simp add: field_normalizeDB_other sessions_with_session_at)
  moreover have "field ?mv ''type'' = JStr t" "field ?mv ''amount_c'' = JNum (trunc a)"
    by (simp_all add: cash_movement_def field_JObj)
  ultimately show ?thesis
    by (intro exI [of _ "fst (normalizeDB (iso_now ?w2) ?db)"] exI [of _ ?mv]) simp
qed

section \<open>Reading back what an operation of the cashier stored\<close>

lemma find_index_map: "find_index P (map f xs) = find_index (\<lambda>x. P (f x)) xs"
  by (induction xs) auto

lemma find_index_append_fresh:
  "list_all (\<lambda>x. \<not> P x) xs \<Longrightarrow> P y \<Longrightarrow> find_index P (xs @ [y]) = Some (length xs)"
  by (induction xs) auto

lemma find_index_update:
  "find_index P xs = Some n \<Longrightarrow> P y \<Longrightarrow> find_index P (xs[n := y]) = Some n"
proof (induction xs arbitrary: n)
  case Nil
  then show ?case by simp
next
  case (Cons x xs)
  then show ?case
    by (cases n) (auto split: if_splits)
qed

lemma has_session_id_json_clean [simp]:
  "has_session_id sid (json_clean s) = has_session_id sid s"
  by (simp add: has_session_id_def strict_eq_field_json_clean)

lemma find_index_json_clean:
  "find_index (has_session_id sid) (map json_clean xs) = find_index (has_session_id sid) xs"
  by (simp add: find_index_map)

lemma sessions_reload:
  assumes "stored_db w = Some d" and "isObj d"
  shows "elems (field (cash_db w) ''cashSessions'') = map json_clean (elems (field d ''cashSessions''))"
proof -
  have "field (fst (get w)) ''cashSessions'' = field (json_clean d) ''cashSessions''"
    using assms by (simp add: get_stored field_normalizeDB_other)
  then show ?thesis
    by (simp add: sessions_cash_db field_json_clean elems_json_clean)
qed

lemma caixa_reload:
  assumes "stored_db w = Some d" and "isObj d" and "isObj (field d ''caixa'')"
  shows "field (fst (get w)) ''caixa'' =
     ensure_array ''aberturas'' (ensure_array ''movimentos'' (coerce_bool ''aberto''
       (json_clean (field d ''caixa''))))"
  using assms by (auto simp: get_stored caixa_normalizeDB field_json_clean)

lemma cur_reload:
  assumes "stored_db w = Some d" and "isObj d" and "isObj (field d ''caixa'')"
    and "field (field d ''caixa'') ''currentSessionId'' = x" and "is_primitive x" and "x \<noteq> JUndef"
  shows "field (field (cash_db w) ''caixa'') ''currentSessionId'' = js_or x JNull"
  using assms
  by (simp add: cur_cash_db caixa_reload field_json_clean json_clean_primitive)

lemma aberto_reload:
  assumes "stored_db w = Some d" and "isObj d" and "isObj (field d ''caixa'')"
  shows "truthy (field (field (cash_db w) ''caixa'') ''aberto'') =
     truthy (field (field d ''caixa'') ''aberto'')"
  using assms
  by (simp add: aberto_cash_db caixa_reload field_json_clean)

lemma currentSession_reload:
  assumes "stored_db w = Some d" and "open_in d sid n"
  shows "currentSession (cash_db w) = Some n"
    and "session_at (cash_db w) n = json_clean (session_at d n)"
proof -
  from assms(2) have d: "isObj d" "isObj (field d ''caixa'')"
    and cur: "field (field d ''caixa'') ''currentSessionId'' = JStr sid" and sid: "sid \<noteq> []"
    and fi: "find_index (has_session_id sid) (elems (field d ''cashSessions'')) = Some n"
    by (simp_all add: open_in_def)
  have c: "field (field (cash_db w) ''caixa'') ''currentSessionId'' = JStr sid"
    using cur_reload [OF assms(1) d cur] sid by (simp add: js_or_def)
  have xs: "elems (field (cash_db w) ''cashSessions'') =
      map json_clean (elems (field d ''cashSessions''))"
    by (rule sessions_reload [OF assms(1) d(1)])
  show "currentSession (cash_db w) = Some n"
    using sid fi
    by (simp add: currentSession_cash_db c xs find_index_json_clean
        flip: has_session_id_def)
  have "n < length (elems (field d ''cashSessions''))"
    using find_index_Some [OF fi] by simp
  then show "session_at (cash_db w) n = json_clean (session_at d n)"
    by (simp add: session_at_def xs)
qed

lemma caixa_after_normalizeDB:
  assumes "isObj db" and "isObj (field db ''caixa'')"
  shows "isObj (field (fst (normalizeDB now db)) ''caixa'')"
    and "field (field (fst (normalizeDB now db)) ''caixa'') ''currentSessionId'' =
           field (field db ''caixa'') ''currentSessionId''"
    and "field (field (fst (normalizeDB now db)) ''caixa'') ''aberto'' =
           JBool (truthy (field (field db ''caixa'') ''aberto''))"
  using assms by (simp_all add: caixa_normalizeDB)

section \<open>The steps of a cash session\<close>

lemma truthy_isObj [simp]: "isObj v \<Longrightarrow> truthy v"
  by (cases v) simp_all

lemma generateId_nonempty [simp]: "fst (generateId (c # p) w) \<noteq> []"
  by (simp add: generateId_def)

lemma isObj_new_session [simp]: "isObj (new_session sid initial_c note w)"
  by (simp add: new_session_def)

lemma field_new_session:
  "field (new_session sid initial_c note w) ''id'' = JStr sid"
  "field (new_session sid initial_c note w) ''initial_c'' = JNum (asInt initial_c 0)"
  "field (new_session sid initial_c note w) ''expected_c'' = JNum (asInt initial_c 0)"
  "field (new_session sid initial_c note w) ''movements'' = JArr []"
  by (simp_all add: new_session_def field_JObj)

lemma isObj_session_with_movement [simp]: "isObj (session_with_movement s mv) = isObj s"
  by (simp add: session_with_movement_def Let_def)

lemma field_session_with_movement:
  "isObj s \<Longrightarrow> field (session_with_movement s mv) k =
     (if k = ''expected_c''
      then JNum (asInt (field s ''expected_c'') 0 + num_field mv ''amount_c'')
      else if k = ''movements'' then JArr (elems (field s ''movements'') @ [mv])
      else field s k)"
  by (simp add: session_with_movement_def Let_def)

lemma isObj_closed_session [simp]: "isObj (closed_session s c note w) = isObj s"
  by (simp add: closed_session_def Let_def)

lemma field_closed_session:
  assumes "isObj s"
  shows "field (closed_session s c note w) ''id'' = field s ''id''"
    and "field (closed_session s c note w) ''expected_c'' = field s ''expected_c''"
    and "field (closed_session s c note w) ''counted_c'' = JNum (asInt c 0)"
    and "field (closed_session s c note w) ''diff_c'' =
           JNum (asInt c 0 - asInt (field s ''expected_c'') 0)"
    and "field (closed_session s c note w) ''closedAtIso'' = JStr (iso_now w)"
  using assms by (simp_all add: closed_session_def Let_def trunc_id)

lemma isObj_with_session [simp]: "isObj (with_session db sid s) = isObj db"
  by (simp add: with_session_def Let_def)

lemma field_with_session:
  assumes "isObj db"
  shows "field (with_session db sid s) ''cashSessions'' =
           JArr (elems (field db ''cashSessions'') @ [s])"
    and "field (with_session db sid s) ''caixa'' =
           set_field (set_field (field db ''caixa'') ''aberto'' (JBool True))
             ''currentSessionId'' (JStr sid)"
  using assms by (simp_all add: with_session_def Let_def)

lemma isObj_caixa_closed [simp]: "isObj (caixa_closed db) = isObj db"
  by (simp add: caixa_closed_def)

lemma field_caixa_closed:
  assumes "isObj db"
  shows "field (caixa_closed db) ''caixa'' =
           set_field (set_field (field db ''caixa'') ''aberto'' (JBool False))
             ''currentSessionId'' JNull"
    and "k \<noteq> ''caixa'' \<Longrightarrow> field (caixa_closed db) k = field db k"
  using assms by (simp_all add: caixa_closed_def)

lemma cash_open_step:
  assumes nr: "never_refuses w"
    and closed: "\<not> truthy (field (field (cash_db w) ''caixa'') ''aberto'')"
    and fresh: "fresh_session_id (fst (generateId ''cs'' (snd (get w)))) (cash_db w)"
  shows "fst (cash_open initial_c note w) = OpenOk (fst (generateId ''cs'' (snd (get w))))"
    and "\<exists>d s. stored_db (snd (cash_open initial_c note w)) = Some d \<and>
           open_in d (fst (generateId ''cs'' (snd (get w))))
             (length (elems (field (cash_db w) ''cashSessions''))) \<and>
           session_at d (length (elems (field (cash_db w) ''cashSessions''))) = s \<and>
           field s ''id'' = JStr (fst (generateId ''cs'' (snd (get w)))) \<and>
           field s ''expected_c'' = JNum (asInt initial_c 0) \<and>
           field s ''initial_c'' = JNum (asInt initial_c 0) \<and>
           field s ''movements'' = JArr [] \<and> isObj s"
proof -
  let ?sid = "fst (generateId ''cs'' (snd (get w)))"
  let ?w2 = "snd (generateId ''cs'' (snd (get w)))"
  let ?s = "new_session ?sid initial_c note ?w2"
  let ?db = "with_session (cash_db w) ?sid ?s"
  let ?d = "fst (normalizeDB (iso_now ?w2) ?db)"
  let ?xs = "elems (field (cash_db w) ''cashSessions'')"
  have eq: "cash_open initial_c note w = (OpenOk ?sid, snd (safeSave ?db False False ?w2))"
    using closed by (simp add: cash_open_def Let_def flip: cash_db_def)
  show "fst (cash_open initial_c note w) = OpenOk ?sid"
    by (simp add: eq)
  have nr2: "never_refuses ?w2"
    using nr never_refuses_same_env [OF same_env_at_time_get] by simp
  have st: "stored_db (snd (cash_open initial_c note w)) = Some ?d"
    by (simp add: eq stored_safeSave [OF nr2])
  have cs: "field ?d ''cashSessions'' = JArr (?xs @ [?s])"
    by (simp add: field_normalizeDB_other field_with_session)
  have cx: "isObj (field ?db ''caixa'')"
      "field (field ?db ''caixa'') ''currentSessionId'' = JStr ?sid"
    by (simp_all add: field_with_session)
  have "has_session_id ?sid ?s"
    by (simp add: has_session_id_def field_new_session strict_eq_def)
  moreover have "list_all (\<lambda>x. \<not> has_session_id ?sid x) ?xs"
    using fresh by (simp add: fresh_session_id_def has_session_id_def)
  ultimately have fi: "find_index (has_session_id ?sid) (?xs @ [?s]) = Some (length ?xs)"
    by (simp add: find_index_append_fresh)
  have "open_in ?d ?sid (length ?xs)"
    using fi cx by (simp add: open_in_def cs caixa_after_normalizeDB)
  moreover have "session_at ?d (length ?xs) = ?s"
    by (simp add: session_at_def cs)
  ultimately show "\<exists>d s. stored_db (snd (cash_open initial_c note w)) = Some d \<and>
           open_in d ?sid (length ?xs) \<and> session_at d (length ?xs) = s \<and>
           field s ''id'' = JStr ?sid \<and>
           field s ''expected_c'' = JNum (asInt initial_c 0) \<and>
           field s ''initial_c'' = JNum (asInt initial_c 0) \<and>
           field s ''movements'' = JArr [] \<and> isObj s"
    using st by (simp add: field_new_session)
qed

lemma cash_addMovement_step:
  assumes st: "stored_db w = Some d0" and op: "open_in d0 sid n"
    and arr: "isArray (field (session_at d0 n) ''movements'')"
    and nr: "never_refuses w" and a: "a \<in> \<int>"
  shows "\<exists>mid. fst (cash_addMovement t a meta w) =
           Returned (MovementOk mid (asInt (field (json_clean (session_at d0 n)) ''expected_c'') 0 + a))"
    and "\<exists>d s. stored_db (snd (cash_addMovement t a meta w)) = Some d \<and> open_in d sid n \<and>
           session_at d n = s \<and> isObj s \<and> field s ''id'' = JStr sid \<and>
           field s ''expected_c'' =
             JNum (asInt (field (json_clean (session_at d0 n)) ''expected_c'') 0 + a)"
proof -
  let ?S = "session_at (cash_db w) n"
  let ?xs = "elems (field (cash_db w) ''cashSessions'')"
  have cur: "currentSession (cash_db w) = Some n" and S: "?S = json_clean (session_at d0 n)"
    using currentSession_reload [OF st op] by simp_all
  have arr': "isArray (field ?S ''movements'')"
    using arr by (auto simp: S field_json_clean)
  have obj: "isObj ?S" by (rule currentSession_Some(2) [OF cur])
  from op have d0: "isObj d0" "isObj (field d0 ''caixa'')"
    and c0: "field (field d0 ''caixa'') ''currentSessionId'' = JStr sid" and sid: "sid \<noteq> []"
    by (simp_all add: open_in_def)
  have c: "field (field (cash_db w) ''caixa'') ''currentSessionId'' = JStr sid"
    using cur_reload [OF st d0 c0] sid by (simp add: js_or_def)
  have fi: "find_index (has_session_id sid) ?xs = Some n"
    using cur sid by (simp add: currentSession_cash_db c has_session_id_def [abs_def])
  have hs: "has_session_id sid ?S"
    using find_index_Some [OF fi] by (simp add: session_at_def)
  show "\<exists>mid. fst (cash_addMovement t a meta w) =
      Returned (MovementOk mid (asInt (field (json_clean (session_at d0 n)) ''expected_c'') 0 + a))"
    using a by (simp add: cash_addMovement_ok [OF cur arr'] S trunc_id)
  let ?w2 = "snd (generateId ''cm'' (snd (get w)))"
  let ?mv = "cash_movement (fst (generateId ''cm'' (snd (get w)))) t a meta ?w2"
  let ?s1 = "session_with_movement ?S ?mv"
  let ?db = "with_session_at (cash_db w) n ?s1"
  let ?d = "fst (normalizeDB (iso_now ?w2) ?db)"
  have nr2: "never_refuses ?w2"
    using nr never_refuses_same_env [OF same_env_at_time_get] by simp
  have std: "stored_db (snd (cash_addMovement t a meta w)) = Some ?d"
    by (simp add: cash_addMovement_ok [OF cur arr'] stored_safeSave [OF nr2])
  have cs: "field ?d ''cashSessions'' = JArr (?xs[n := ?s1])"
    by (simp add: field_normalizeDB_other sessions_with_session_at)
  have hs1: "has_session_id sid ?s1"
    using hs obj by (simp add: has_session_id_def field_session_with_movement)
  have n: "n < length ?xs" by (rule currentSession_Some(1) [OF cur])
  have op': "open_in ?d sid n"
    using sid c find_index_update [OF fi hs1]
    by (simp add: open_in_def cs caixa_after_normalizeDB field_with_session_at)
  have sd: "session_at ?d n = ?s1"
    using n cs by (simp add: session_at_def)
  have am: "num_field ?mv ''amount_c'' = a"
    using a by (simp add: cash_movement_def field_JObj trunc_id)
  have "field ?s1 ''id'' = JStr sid"
    using hs obj by (auto simp: field_session_with_movement has_session_id_def strict_eq_def)
  moreover have "field ?s1 ''expected_c'' =
      JNum (asInt (field (json_clean (session_at d0 n)) ''expected_c'') 0 + a)"
    using obj by (simp add: field_session_with_movement am S)
  ultimately show "\<exists>d s. stored_db (snd (cash_addMovement t a meta w)) = Some d \<and>
      open_in d sid n \<and> session_at d n = s \<and> isObj s \<and> field s ''id'' = JStr sid \<and>
      field s ''expected_c'' =
        JNum (asInt (field (json_clean (session_at d0 n)) ''expected_c'') 0 + a)"
    using std op' sd obj by simp
qed

lemma cash_close_ok:
  assumes "currentSession (cash_db w) = Some i"
  shows "cash_close c note w =
     (CloseOk (field (session_at (cash_db w) i) ''id'')
        (field (session_at (cash_db w) i) ''expected_c'')
        (asInt c 0) (asInt c 0 - asInt (field (session_at (cash_db w) i) ''expected_c'') 0),
      snd (safeSave (caixa_closed (with_session_at (cash_db w) i
             (closed_session (session_at (cash_db w) i) c note (snd (get w)))))
           False False (snd (get w))))"
proof -
  have obj: "isObj (session_at (cash_db w) i)"
    by (rule currentSession_Some(2) [OF assms])
  show ?thesis
    using assms obj
    by (simp add: cash_close_def Let_def field_closed_session flip: cash_db_def session_at_def)
qed

lemma cash_close_closed:
  "currentSession (cash_db w) = None \<Longrightarrow>
   cash_close c note w = (CashError CaixaNaoAberto, snd (get w))"
  by (simp add: cash_close_def Let_def flip: cash_db_def)

lemma cash_close_stored:
  assumes cur: "currentSession (cash_db w) = Some i" and nr: "never_refuses w"
  shows "\<exists>d. stored_db (snd (cash_close c note w)) = Some d \<and> isObj d \<and>
      isObj (field d ''caixa'') \<and>
      field (field d ''caixa'') ''aberto'' = JBool False \<and>
      field (field d ''caixa'') ''currentSessionId'' = JNull \<and>
      session_at d i = closed_session (session_at (cash_db w) i) c note (snd (get w))"
proof -
  let ?w1 = "snd (get w)"
  let ?sc = "closed_session (session_at (cash_db w) i) c note ?w1"
  let ?db = "caixa_closed (with_session_at (cash_db w) i ?sc)"
  let ?d = "fst (normalizeDB (iso_now ?w1) ?db)"
  have nr1: "never_refuses ?w1"
    using nr never_refuses_same_env [OF same_env_get] by simp
  have st: "stored_db (snd (cash_close c note w)) = Some ?d"
    by (simp add: cash_close_ok [OF cur] stored_safeSave [OF nr1])
  have cx: "isObj (field ?db ''caixa'')"
      "field (field ?db ''caixa'') ''currentSessionId'' = JNull"
      "field (field ?db ''caixa'') ''aberto'' = JBool False"
    by (simp_all add: field_caixa_closed field_with_session_at)
  have cs: "field ?d ''cashSessions'' =
      JArr ((elems (field (cash_db w) ''cashSessions''))[i := ?sc])"
    by (simp add: field_normalizeDB_other field_caixa_closed sessions_with_session_at)
  have i: "i < length (elems (field (cash_db w) ''cashSessions''))"
    by (rule currentSession_Some(1) [OF cur])
  have "session_at ?d i = ?sc"
    using i cs by (simp add: session_at_def)
  then show ?thesis
    using st cx by (simp add: caixa_after_normalizeDB)
qed

lemma currentSession_after_close:
  assumes "stored_db w = Some d" and "isObj d" and "isObj (field d ''caixa'')"
    and "field (field d ''caixa'') ''currentSessionId'' = JNull"
  shows "currentSession (cash_db w) = None"
  using cur_reload [OF assms(1-4)]
  by (simp add: currentSession_cash_db js_or_def)


section \<open>The claims\<close>



lemma ex_get_estoque:
  "field (fst (get (ex_world ex_stock_db))) ''estoque'' =
     JArr [JObj [(''cod'', JStr ''A''), (''nome'', JStr ''Prod''), (''qtd'', JNum 3),
                 (''min'', JNum 0), (''custo_c'', JNum 0), (''preco_c'', JNum 0),
                 (''lucro_p'', JNum 0)]]"
  by (simp add: get_def ex_world_def raw_falsy_def JSON_parse_item_def ex_stock_db_def
      normalizeDB_w_def estoque_normalizeDB norm_produto_def produto_coerced_def
      coerce_str_def coerce_int_def coerce_num_def clamp_neg_def num_field_def
      field_JObj set_field_JObj asStr_def trim_def is_space_def asInt_def asNum_def own_props_def)

lemma ex_stock_estoque:
  "elems (field (stock_ensureCollections (fst (get (ex_world ex_stock_db)))) ''estoque'') =
     [JObj [(''cod'', JStr ''A''), (''nome'', JStr ''Prod''), (''qtd'', JNum 3),
            (''min'', JNum 0), (''custo_c'', JNum 0), (''preco_c'', JNum 0),
            (''lucro_p'', JNum 0)]]"
  by (simp add: stock_ensureCollections_def ex_get_estoque)

lemma never_refuses_ex_world [simp]: "never_refuses (ex_world doc)"
  by (simp add: never_refuses_def ex_world_def)



lemma appended_cash_addMovement:
  assumes "currentSession (cash_db w) = Some i"
    and "isArray (field (session_at (cash_db w) i) ''movements'')"
    and "never_refuses w"
    and "a \<in> \<int>"
  shows "appended_movement w i (cash_addMovement t a meta w) t a"
proof -
  let ?xs = "elems (field (cash_db w) ''cashSessions'')"
  let ?s = "session_at (cash_db w) i"
  from stored_cash_addMovement [OF assms(1-3), of t a meta]
  obtain d mv where d: "stored_db (snd (cash_addMovement t a meta w)) = Some d"
    and cs: "field d ''cashSessions'' = JArr (?xs[i := session_with_movement ?s mv])"
    and ty: "field mv ''type'' = JStr t" and am: "field mv ''amount_c'' = JNum (trunc a)"
    by blast
  have i: "i < length ?xs" and obj: "isObj ?s"
    using currentSession_Some [OF assms(1)] by simp_all
  have s': "session_at d i = session_with_movement ?s mv"
    using i by (simp add: session_at_def cs)
  have mvs: "session_movements d i = session_movements (cash_db w) i @ [mv]"
    using obj by (simp add: session_movements_def s' session_with_movement_def Let_def)
  have ex: "field (session_at d i) ''expected_c'' =
      JNum (asInt (field ?s ''expected_c'') 0 + a)"
    using obj am assms(4) by (simp add: s' session_with_movement_def Let_def trunc_id)
  show ?thesis
    unfolding appended_movement_def
    using d mvs ty am ex assms(4)
    by (simp add: cash_addMovement_ok [OF assms(1,2)] trunc_id)
qed


lemma ex_cash_get:
  "field (fst (get (ex_world ex_cash_db))) ''cashSessions'' =
     JArr [JObj [(''id'', JStr ''cs_1''), (''initial_c'', JNum 1000),
                 (''expected_c'', JNum 1000), (''movements'', JArr [])]]"
  "field (field (fst (get (ex_world ex_cash_db))) ''caixa'') ''currentSessionId'' = JStr ''cs_1''"
proof -
  have st: "stored_db (ex_world ex_cash_db) = Some ex_cash_db"
    by (simp add: stored_db_def ex_world_def)
  have obj: "isObj (json_clean ex_cash_db)"
    by (simp add: ex_cash_db_def)
  show "field (fst (get (ex_world ex_cash_db))) ''cashSessions'' =
     JArr [JObj [(''id'', JStr ''cs_1''), (''initial_c'', JNum 1000),
                 (''expected_c'', JNum 1000), (''movements'', JArr [])]]"
    by (simp add: get_stored [OF st] field_normalizeDB_other [OF obj] field_json_clean)
       (simp add: ex_cash_db_def field_JObj own_props_def)
  show "field (field (fst (get (ex_world ex_cash_db))) ''caixa'') ''currentSessionId'' =
      JStr ''cs_1''"
    by (simp add: get_stored [OF st] caixa_normalizeDB [OF obj] field_json_clean)
       (simp add: ex_cash_db_def field_JObj own_props_def)
qed

lemma ex_cash_current: "currentSession (cash_db (ex_world ex_cash_db)) = Some 0"
  by (simp add: currentSession_cash_db cur_cash_db sessions_cash_db ex_cash_get js_or_def
      field_JObj strict_eq_def)

lemma ex_cash_session:
  "session_at (cash_db (ex_world ex_cash_db)) 0 =
     JObj [(''id'', JStr ''cs_1''), (''initial_c'', JNum 1000),
           (''expected_c'', JNum 1000), (''movements'', JArr [])]"
  by (simp add: session_at_def sessions_cash_db ex_cash_get)




lemma ex_stock_caixa:
  "field (fst (get (ex_world ex_stock_db))) ''caixa'' = default_caixa"
  "field (fst (get (ex_world ex_stock_db))) ''cashSessions'' = JUndef"
proof -
  have st: "stored_db (ex_world ex_stock_db) = Some ex_stock_db"
    by (simp add: stored_db_def ex_world_def)
  have obj: "isObj (json_clean ex_stock_db)"
    by (simp add: ex_stock_db_def)
  show "field (fst (get (ex_world ex_stock_db))) ''caixa'' = default_caixa"
    by (simp add: get_stored [OF st] caixa_normalizeDB [OF obj] field_json_clean)
       (simp add: ex_stock_db_def field_JObj default_caixa_def coerce_bool_def ensure_array_def
          set_field_JObj)
  show "field (fst (get (ex_world ex_stock_db))) ''cashSessions'' = JUndef"
    by (simp add: get_stored [OF st] field_normalizeDB_other [OF obj] field_json_clean)
       (simp add: ex_stock_db_def field_JObj)
qed



lemma recovery_setItem [simp]: "recovery_state (snd (setItem k v w)) = recovery_state w"
  by (simp add: setItem_def)

lemma iso_now_same_env: "same_env w w' \<Longrightarrow> iso_now w' = iso_now w"
  by (simp add: same_env_def)



lemma safeSave_full_storage:
  "sv_ok (fst (safeSave db forceSnapshot skipNormalize (full_storage w))) = False"
  by (simp add: safeSave_def setItem_def full_storage_def normalizeDB_w_def save_failed_def
      Let_def split: prod.splits)



lemma trim_snaps_take: "trim_snaps cap snaps = take cap snaps"
proof (induction cap snaps rule: trim_snaps.induct)
  case (1 cap snaps)
  show ?case
  proof (cases "length snaps > cap")
    case True
    then have "take cap (butlast snaps) = take cap snaps"
      by (simp add: take_butlast)
    with True 1 show ?thesis
      by (simp add: trim_snaps.simps [of cap snaps])
  next
    case False
    then show ?thesis
      by (simp add: trim_snaps.simps [of cap snaps])
  qed
qed

lemma loadSnapshots_stored:
  "localStorage w (snapKey k) = Some (Json (JArr xs)) \<Longrightarrow>
   loadSnapshots k w = map json_clean xs"
  by (simp add: loadSnapshots_def raw_falsy_def JSON_parse_item_def Let_def)

lemma createSnapshot_Returned:
  assumes "createSnapshot k db cap w = (Returned sid, w')"
  shows "sid = dec (date_now w) @ ''_'' @ random_hex w (random_calls w)"
    and "localStorage w' (snapKey k) =
           Some (Json (JArr (take cap
             (new_snapshot sid db (w\<lparr>random_calls := Suc (random_calls w)\<rparr>) #
              loadSnapshots k w))))"
  using assms
  by (auto simp: createSnapshot_def saveSnapshots_def setItem_def stringify_item_def Let_def
      trim_snaps_take split: if_splits)

text \<open>
  C8, as the code has it.  After a call of \<open>createSnapshot\<close> that returns, the list that
  is stored (as \<open>loadSnapshots\<close> reads it back) has at most \<open>maxSnapshots\<close> entries; when
  \<open>maxSnapshots\<close> is at least 1, its first entry is the snapshot that the call created,
  the one with the identifier that the call returns.  (With \<open>maxSnapshots = 0\<close> the list is
  stored empty.)
\<close>

theorem createSnapshot_capped:
  assumes "createSnapshot k db cap w = (Returned sid, w')"
  shows "length (loadSnapshots k w') \<le> cap \<and>
         (0 < cap \<longrightarrow>
            loadSnapshots k w' \<noteq> [] \<and>
            loadSnapshots k w' ! 0 =
              json_clean (new_snapshot sid db (w\<lparr>random_calls := Suc (random_calls w)\<rparr>)) \<and>
            field (loadSnapshots k w' ! 0) ''id'' = JStr sid) \<and>
         (cap = 0 \<longrightarrow> loadSnapshots k w' = [])"
proof -
  let ?new = "new_snapshot sid db (w\<lparr>random_calls := Suc (random_calls w)\<rparr>)"
  have l: "loadSnapshots k w' = map json_clean (take cap (?new # loadSnapshots k w))"
    by (rule loadSnapshots_stored [OF createSnapshot_Returned(2) [OF assms]])
  have "field (json_clean ?new) ''id'' = JStr sid"
    by (simp add: field_json_clean) (simp add: new_snapshot_def field_JObj)
  then show ?thesis
    by (cases cap) (simp_all add: l)
qed

lemma ex_createSnapshot:
  "createSnapshot ''erp_db'' ex_stock_db cap (ex_world ex_stock_db) =
     (Returned ''5000_111111'',
      snd (createSnapshot ''erp_db'' ex_stock_db cap (ex_world ex_stock_db)))"
proof -
  have "dec 5000 = ''5000''" "dec 111111 = ''111111''"
    by (simp_all add: dec.simps)
  then show ?thesis
    by (simp add: createSnapshot_def saveSnapshots_def setItem_def ex_world_def Let_def)
qed

theorem createSnapshot_capped_witness:
  "length (loadSnapshots ''erp_db''
     (snd (createSnapshot ''erp_db'' ex_stock_db 20 (ex_world ex_stock_db)))) \<le> 20 \<and>
   field (loadSnapshots ''erp_db''
     (snd (createSnapshot ''erp_db'' ex_stock_db 20 (ex_world ex_stock_db))) ! 0) ''id'' =
     JStr ''5000_111111''"
proof -
  have "0 < (20::nat)" by simp
  with createSnapshot_capped [OF ex_createSnapshot [of 20]] show ?thesis
    by blast
qed

text \<open>
  The claim C8 as it is written fails for a cap of 0: the call returns the identifier of
  the new snapshot, and the stored list is empty, so that nothing is at index 0.
\<close>

theorem createSnapshot_cap_zero_counterexample:
  "fst (createSnapshot ''erp_db'' ex_stock_db 0 (ex_world ex_stock_db)) = Returned ''5000_111111'' \<and>
   loadSnapshots ''erp_db''
     (snd (createSnapshot ''erp_db'' ex_stock_db 0 (ex_world ex_stock_db))) = []"
proof -
  have "dec 5000 = ''5000''" "dec 111111 = ''111111''"
    by (simp_all add: dec.simps)
  then show ?thesis
    by (simp add: createSnapshot_def saveSnapshots_def setItem_def ex_world_def Let_def
        trim_snaps_take loadSnapshots_def raw_falsy_def JSON_parse_item_def snapKey_def
        stringify_item_def)
qed

end
